theory Spec2Isabelle
  imports Complex_Main "HOL-Library.Log_Nat"
begin

section \<open>Python floats: IEEE 754 binary64 with round-to-nearest-even\<close>

text \<open>
  A Python \<^verbatim>\<open>float\<close> is a binary64 number. A finite value is modelled by the rational it
  denotes, the other values by \<open>PInf\<close>, \<open>NInf\<close> and \<open>NaN\<close>. The two zeros are one value
  \<open>Fin 0\<close>: they compare equal in Python and no operation of this program tells them apart
  (the only divisions are by non-zero constants).

  Every arithmetic operation computes the exact rational result and rounds it with
  \<open>round64\<close>: the exponent of the result is \<open>fexp\<close> (52 below the leading bit, never below
  \<open>-1074\<close>, which gives the subnormals), the significand is rounded to the nearest integer,
  ties to even (\<open>rne\<close>), and a rounded magnitude of \<open>2 ^ 1024\<close> or more is an infinity.
\<close>

datatype pyfloat = Fin rat | PInf | NInf | NaN

datatype error = ValueError | OverflowError | ZeroDivisionError

definition rne :: "rat \<Rightarrow> int" where
  "rne x = (let f = \<lfloor>x\<rfloor>; d = x - of_int f
            in if d < 1 / 2 then f else if 1 / 2 < d then f + 1
               else if even f then f else f + 1)"

definition ilog2 :: "rat \<Rightarrow> int" where
  "ilog2 x = (case quotient_of x of (p, q) \<Rightarrow>
     let k = bitlen p - bitlen q in if x < 2 powi k then k - 1 else k)"

definition fexp :: "rat \<Rightarrow> int" where
  "fexp x = max (ilog2 \<bar>x\<bar> - 52) (- 1074)"

definition rnd :: "rat \<Rightarrow> rat" where
  "rnd x = (if x = 0 then 0 else of_int (rne (x / 2 powi fexp x)) * 2 powi fexp x)"

definition round64 :: "rat \<Rightarrow> pyfloat" where
  "round64 x = (let r = rnd x
     in if 2 ^ 1024 \<le> r then PInf else if r \<le> - (2 ^ 1024) then NInf else Fin r)"

text \<open>A float literal of the source denotes the binary64 number nearest to its decimal value.\<close>

definition lit :: "rat \<Rightarrow> pyfloat" where
  "lit q = round64 q"

fun fneg :: "pyfloat \<Rightarrow> pyfloat" where
  "fneg (Fin a) = Fin (- a)"
| "fneg PInf = NInf"
| "fneg NInf = PInf"
| "fneg NaN = NaN"

fun fadd :: "pyfloat \<Rightarrow> pyfloat \<Rightarrow> pyfloat" where
  "fadd (Fin a) (Fin b) = round64 (a + b)"
| "fadd NaN y = NaN"
| "fadd x NaN = NaN"
| "fadd PInf NInf = NaN"
| "fadd NInf PInf = NaN"
| "fadd PInf y = PInf"
| "fadd NInf y = NInf"
| "fadd x PInf = PInf"
| "fadd x NInf = NInf"

definition fsub :: "pyfloat \<Rightarrow> pyfloat \<Rightarrow> pyfloat" where
  "fsub x y = fadd x (fneg y)"

text \<open>The product of an infinity and a finite number: its sign, or \<open>NaN\<close> for a zero.\<close>

definition inf_times :: "bool \<Rightarrow> rat \<Rightarrow> pyfloat" where
  "inf_times positive a =
     (if a = 0 then NaN else if (0 < a) = positive then PInf else NInf)"

fun fmul :: "pyfloat \<Rightarrow> pyfloat \<Rightarrow> pyfloat" where
  "fmul (Fin a) (Fin b) = round64 (a * b)"
| "fmul NaN y = NaN"
| "fmul x NaN = NaN"
| "fmul (Fin a) PInf = inf_times True a"
| "fmul (Fin a) NInf = inf_times False a"
| "fmul PInf (Fin b) = inf_times True b"
| "fmul NInf (Fin b) = inf_times False b"
| "fmul PInf PInf = PInf"
| "fmul NInf NInf = PInf"
| "fmul PInf NInf = NInf"
| "fmul NInf PInf = NInf"

text \<open>
  Python's \<^verbatim>\<open>x / y\<close> on floats raises \<^verbatim>\<open>ZeroDivisionError\<close> for a zero divisor, whatever the
  dividend; addition, subtraction and multiplication never raise (an overflow is an infinity).
\<close>

fun fdiv :: "pyfloat \<Rightarrow> pyfloat \<Rightarrow> error + pyfloat" where
  "fdiv (Fin a) (Fin b) = (if b = 0 then Inl ZeroDivisionError else Inr (round64 (a / b)))"
| "fdiv NaN (Fin b) = (if b = 0 then Inl ZeroDivisionError else Inr NaN)"
| "fdiv PInf (Fin b) = (if b = 0 then Inl ZeroDivisionError else Inr (inf_times True b))"
| "fdiv NInf (Fin b) = (if b = 0 then Inl ZeroDivisionError else Inr (inf_times False b))"
| "fdiv x NaN = Inr NaN"
| "fdiv (Fin a) y = Inr (Fin 0)"
| "fdiv x y = Inr NaN"

text \<open>
  An \<^verbatim>\<open>int\<close> operand of a float operation is converted first, correctly rounded; the
  conversion raises \<^verbatim>\<open>OverflowError\<close> when the integer rounds beyond the largest float.
\<close>

definition int_to_float :: "int \<Rightarrow> error + pyfloat" where
  "int_to_float n = (case round64 (of_int n) of Fin r \<Rightarrow> Inr (Fin r) | _ \<Rightarrow> Inl OverflowError)"

text \<open>Python's comparisons \<^verbatim>\<open><=\<close> and \<^verbatim>\<open><\<close> on floats; a \<open>NaN\<close> compares false.\<close>

fun fle :: "pyfloat \<Rightarrow> pyfloat \<Rightarrow> bool" where
  "fle (Fin a) (Fin b) = (a \<le> b)"
| "fle (Fin a) PInf = True"
| "fle NInf (Fin b) = True"
| "fle NInf NInf = True"
| "fle NInf PInf = True"
| "fle PInf PInf = True"
| "fle x y = False"

fun flt :: "pyfloat \<Rightarrow> pyfloat \<Rightarrow> bool" where
  "flt (Fin a) (Fin b) = (a < b)"
| "flt (Fin a) PInf = True"
| "flt NInf (Fin b) = True"
| "flt NInf PInf = True"
| "flt x y = False"


section \<open>Python strings and the built-ins the parser calls\<close>

text \<open>
  A \<^verbatim>\<open>str\<close> is a sequence of Unicode code points. \<open>ascii\<close> embeds an ASCII literal; the
  per-mille sign is the code point U+2030.
\<close>

type_synonym pystr = "nat list"

definition ascii :: "string \<Rightarrow> pystr" where
  "ascii cs = map of_char cs"




















section \<open>The program\<close>

text \<open>
  \<^verbatim>\<open>Sex = Literal["male", "female"]\<close> is a type hint: at run time \<^verbatim>\<open>sex\<close> is a string, and
  \<^verbatim>\<open>watson_tbw_liters\<close> compares it with \<^verbatim>\<open>"male"\<close>. \<^verbatim>\<open>age_years\<close> is an unbounded \<^verbatim>\<open>int\<close>.
\<close>

record Inputs =
  sex :: pystr
  weight_kg :: pyfloat
  height_cm :: pyfloat
  age_years :: int
  duration_hours :: pyfloat
  target_bac :: pyfloat
  beta :: pyfloat

text \<open>The plan of \<^verbatim>\<open>bac_planner_python_program.py\<close>, in grams.\<close>

record Plan =
  tbw_L :: pyfloat
  tbw_dL :: pyfloat
  loading_grams :: pyfloat
  maintenance_g_per_h :: pyfloat
  total_grams_for_duration :: pyfloat
  std_drinks_12g :: pyfloat
  std_drinks_14g :: pyfloat

text \<open>
  The plan of \<^verbatim>\<open>bac_planner_python_program(1).py\<close>, in millilitres. The fields it shares
  by name with the plan in grams carry the suffix \<open>_v\<close> here.
\<close>

record Plan_v =
  tbw_L_v :: pyfloat
  tbw_dL_v :: pyfloat
  loading_ml :: pyfloat
  maintenance_ml_per_h :: pyfloat
  total_ml_for_duration :: pyfloat
  std_drinks_12g_v :: pyfloat
  std_drinks_14g_v :: pyfloat

definition ETHANOL_DENSITY :: pyfloat where
  "ETHANOL_DENSITY = lit (789 / 1000)"

definition BEVERAGES :: "(pystr \<times> pyfloat) list" where
  "BEVERAGES =
     [(ascii ''Beer (5%)'', lit (5 / 100)),
      (ascii ''Wine (12%)'', lit (12 / 100)),
      (ascii ''Fortified Wine (18%)'', lit (18 / 100)),
      (ascii ''Spirits (40%)'', lit (40 / 100))]"

text \<open>
  \<^verbatim>\<open>watson_tbw_liters\<close> (the same in both files). The expressions associate to the left;
  \<^verbatim>\<open>0.09516 * age_years\<close> converts the integer first, \<^verbatim>\<open>-2.097\<close> negates the literal.
\<close>

definition watson_tbw_liters :: "pystr \<Rightarrow> pyfloat \<Rightarrow> pyfloat \<Rightarrow> int \<Rightarrow> error + pyfloat" where
  "watson_tbw_liters sx weight height age =
     (if sx = ascii ''male''
      then (case int_to_float age of
              Inl e \<Rightarrow> Inl e
            | Inr a \<Rightarrow>
                Inr (fadd (fadd (fsub (lit (2447 / 1000)) (fmul (lit (9516 / 100000)) a))
                                (fmul (lit (1074 / 10000)) height))
                          (fmul (lit (3362 / 10000)) weight)))
      else Inr (fadd (fadd (fneg (lit (2097 / 1000))) (fmul (lit (1069 / 10000)) height))
                     (fmul (lit (2466 / 10000)) weight)))"



text \<open>\<^verbatim>\<open>make_plan\<close> of \<^verbatim>\<open>bac_planner_python_program.py\<close>.\<close>

definition make_plan :: "Inputs \<Rightarrow> error + Plan" where
  "make_plan inp =
     (case watson_tbw_liters (sex inp) (weight_kg inp) (height_cm inp) (age_years inp) of
        Inl e \<Rightarrow> Inl e
      | Inr tbw_l \<Rightarrow>
          (let tbw_dl = fmul tbw_l (lit 10);
               loading = fmul (target_bac inp) tbw_dl;
               maintenance = fmul (beta inp) tbw_dl;
               total = fadd loading (fmul maintenance (duration_hours inp))
           in case fdiv total (lit 12) of
                Inl e \<Rightarrow> Inl e
              | Inr d12 \<Rightarrow>
                  (case fdiv total (lit 14) of
                     Inl e \<Rightarrow> Inl e
                   | Inr d14 \<Rightarrow>
                       Inr \<lparr>tbw_L = tbw_l, tbw_dL = tbw_dl, loading_grams = loading,
                            maintenance_g_per_h = maintenance,
                            total_grams_for_duration = total,
                            std_drinks_12g = d12, std_drinks_14g = d14\<rparr>)))"

text \<open>\<^verbatim>\<open>make_plan\<close> of \<^verbatim>\<open>bac_planner_python_program(1).py\<close>.\<close>

definition make_plan_v :: "Inputs \<Rightarrow> error + Plan_v" where
  "make_plan_v inp =
     (case watson_tbw_liters (sex inp) (weight_kg inp) (height_cm inp) (age_years inp) of
        Inl e \<Rightarrow> Inl e
      | Inr tbw_l \<Rightarrow>
          (let tbw_dl = fmul tbw_l (lit 10);
               loading = fmul (target_bac inp) tbw_dl;
               maintenance = fmul (beta inp) tbw_dl;
               total = fadd loading (fmul maintenance (duration_hours inp))
           in case fdiv loading ETHANOL_DENSITY of
                Inl e \<Rightarrow> Inl e
              | Inr l_ml \<Rightarrow>
                  (case fdiv maintenance ETHANOL_DENSITY of
                     Inl e \<Rightarrow> Inl e
                   | Inr m_ml \<Rightarrow>
                       (case fdiv total ETHANOL_DENSITY of
                          Inl e \<Rightarrow> Inl e
                        | Inr t_ml \<Rightarrow>
                            (case fdiv total (lit 12) of
                               Inl e \<Rightarrow> Inl e
                             | Inr d12 \<Rightarrow>
                                 (case fdiv total (lit 14) of
                                    Inl e \<Rightarrow> Inl e
                                  | Inr d14 \<Rightarrow>
                                      Inr \<lparr>tbw_L_v = tbw_l, tbw_dL_v = tbw_dl, loading_ml = l_ml,
                                           maintenance_ml_per_h = m_ml,
                                           total_ml_for_duration = t_ml,
                                           std_drinks_12g_v = d12,
                                           std_drinks_14g_v = d14\<rparr>))))))"

definition ethanol_to_beverage_volume :: "pyfloat \<Rightarrow> pyfloat \<Rightarrow> error + pyfloat" where
  "ethanol_to_beverage_volume ethanol_ml abv = fdiv ethanol_ml abv"

text \<open>
  The two loops of \<^verbatim>\<open>main\<close> over \<^verbatim>\<open>BEVERAGES.items()\<close>: the beverage volumes of the total
  and of the hourly maintenance, before they are formatted for display.
\<close>

definition total_beverage_volumes :: "Plan_v \<Rightarrow> (pystr \<times> (error + pyfloat)) list" where
  "total_beverage_volumes plan =
     map (\<lambda>(name, abv). (name, ethanol_to_beverage_volume (total_ml_for_duration plan) abv))
       BEVERAGES"

definition per_hour_beverage_volumes :: "Plan_v \<Rightarrow> (pystr \<times> (error + pyfloat)) list" where
  "per_hour_beverage_volumes plan =
     map (\<lambda>(name, abv). (name, ethanol_to_beverage_volume (maintenance_ml_per_h plan) abv))
       BEVERAGES"




section \<open>The specification's wording\<close>









section \<open>Reference inputs and comparisons of results\<close>

text \<open>The largest finite float, \<^verbatim>\<open>sys.float_info.max\<close>.\<close>

definition MAX_FLOAT :: rat where
  "MAX_FLOAT = 2 ^ 1024 - 2 ^ 971"

text \<open>
  Half way between the largest float and \<open>2 ^ 1024\<close>: from here on a number rounds to an
  infinity, and the conversion of an integer raises \<^verbatim>\<open>OverflowError\<close>.
\<close>

definition OVERFLOW_THRESHOLD :: rat where
  "OVERFLOW_THRESHOLD = 2 ^ 1024 - 2 ^ 970"


text \<open>
  The scenario of the specification: male, 80 kg, 180 cm, 30 years, 3 hours, target 0.08,
  the default \<^verbatim>\<open>beta = 0.015\<close>.
\<close>

definition scenario :: Inputs where
  "scenario = \<lparr>sex = ascii ''male'', weight_kg = lit 80, height_cm = lit 180, age_years = 30,
     duration_hours = lit 3, target_bac = lit (8 / 100), beta = lit (15 / 1000)\<rparr>"


section \<open>Rounding: evaluation and monotonicity\<close>

lemma rne_of_int: "rne (of_int n) = n"
  by (simp add: rne_def)

lemma rne_bounds: "of_int (rne x) - 1 / 2 \<le> x \<and> x \<le> of_int (rne x) + 1 / 2"
  unfolding rne_def Let_def by (auto; linarith)

lemma rne_mono: "x \<le> y \<Longrightarrow> rne x \<le> rne y"
proof -
  assume xy: "x \<le> y"
  have fl: "\<lfloor>x\<rfloor> \<le> \<lfloor>y\<rfloor>" using xy by (rule floor_mono)
  show ?thesis
  proof (cases "\<lfloor>x\<rfloor> = \<lfloor>y\<rfloor>")
    case True
    then show ?thesis using xy unfolding rne_def Let_def by auto
  next
    case False
    then have "\<lfloor>x\<rfloor> + 1 \<le> \<lfloor>y\<rfloor>" using fl by simp
    moreover have "rne x \<le> \<lfloor>x\<rfloor> + 1" unfolding rne_def Let_def by auto
    moreover have "\<lfloor>y\<rfloor> \<le> rne y" unfolding rne_def Let_def by auto
    ultimately show ?thesis by linarith
  qed
qed

lemma rne_spec:
  "\<bar>x - of_int (rne x)\<bar> < 1 / 2 \<or> (\<bar>x - of_int (rne x)\<bar> = 1 / 2 \<and> even (rne x))"
proof -
  define d where "d = x - of_int \<lfloor>x\<rfloor>"
  have d: "0 \<le> d" "d < 1" unfolding d_def by linarith+
  have x: "x = of_int \<lfloor>x\<rfloor> + d" unfolding d_def by simp
  consider "d < 1 / 2" | "1 / 2 < d" | "d = 1 / 2" "even \<lfloor>x\<rfloor>" | "d = 1 / 2" "odd \<lfloor>x\<rfloor>"
    by fastforce
  then show ?thesis
  proof cases
    case 1
    then have "rne x = \<lfloor>x\<rfloor>" unfolding rne_def Let_def d_def by simp
    then show ?thesis using 1 d unfolding d_def by simp
  next
    case 2
    then have "rne x = \<lfloor>x\<rfloor> + 1" unfolding rne_def Let_def d_def by simp
    then show ?thesis using 2 d unfolding d_def by (simp add: abs_if)
  next
    case 3
    then have "rne x = \<lfloor>x\<rfloor>" unfolding rne_def Let_def d_def by simp
    then show ?thesis using 3 d unfolding d_def by simp
  next
    case 4
    then have "rne x = \<lfloor>x\<rfloor> + 1" unfolding rne_def Let_def d_def by simp
    then show ?thesis using 4 d unfolding d_def by (simp add: abs_if)
  qed
qed

lemma rne_eqI:
  assumes "\<bar>x - of_int m\<bar> < 1 / 2 \<or> (\<bar>x - of_int m\<bar> = 1 / 2 \<and> even m)"
  shows "rne x = m"
proof -
  have lo: "of_int (m - 1) < x" using assms by (auto simp: abs_if split: if_splits)
  have hi: "x < of_int (m + 1)" using assms by (auto simp: abs_if split: if_splits)
  have "m - 1 \<le> \<lfloor>x\<rfloor>" using lo by (simp add: le_floor_iff)
  moreover have "\<lfloor>x\<rfloor> < m + 1" using hi unfolding floor_less_iff .
  ultimately consider "\<lfloor>x\<rfloor> = m" | "\<lfloor>x\<rfloor> = m - 1" by linarith
  then show ?thesis
  proof cases
    case 1
    then show ?thesis using assms unfolding rne_def Let_def by (auto simp: abs_if split: if_splits)
  next
    case 2
    then show ?thesis using assms unfolding rne_def Let_def by (auto simp: abs_if split: if_splits)
  qed
qed

lemma rne_uminus: "rne (- x) = - rne x"
proof (rule rne_eqI)
  have "\<bar>- x - of_int (- rne x)\<bar> = \<bar>x - of_int (rne x)\<bar>" by simp
  then show "\<bar>- x - of_int (- rne x)\<bar> < 1 / 2 \<or> (\<bar>- x - of_int (- rne x)\<bar> = 1 / 2 \<and> even (- rne x))"
    using rne_spec [of x] by auto
qed

lemma p2_pos: "(0::rat) < 2 powi a"
  by (simp add: zero_less_power_int)

lemma p2_le_iff: "(2::rat) powi a \<le> 2 powi b \<longleftrightarrow> a \<le> b"
proof
  assume h: "(2::rat) powi a \<le> 2 powi b"
  show "a \<le> b"
  proof (rule ccontr)
    assume "\<not> a \<le> b"
    then have "b < a" by simp
    then have "(2::rat) powi b < 2 powi a" by (rule power_int_strict_increasing) simp
    with h show False by simp
  qed
next
  assume "a \<le> b"
  then show "(2::rat) powi a \<le> 2 powi b" by (rule power_int_increasing) simp
qed

lemma p2_less_iff: "(2::rat) powi a < 2 powi b \<longleftrightarrow> a < b"
  using p2_le_iff [of b a] by (simp add: not_le [symmetric])

lemma p2_add: "(2::rat) powi (a + b) = 2 powi a * 2 powi b"
  by (simp add: power_int_add)

lemma p2_diff: "(2::rat) powi (a - b) = 2 powi a / 2 powi b"
  by (simp add: power_int_diff)

lemma ilog2_bounds:
  assumes "0 < x"
  shows "2 powi (ilog2 x) \<le> x \<and> x < 2 powi (ilog2 x + 1)"
proof -
  obtain p q where pq: "quotient_of x = (p, q)" by force
  have q: "0 < q" using pq by (rule quotient_of_denom_pos)
  have x: "x = of_int p / of_int q" using pq by (rule quotient_of_div)
  have p: "0 < p" using assms q x by (simp add: zero_less_divide_iff)
  define k where "k = bitlen p - bitlen q"
  have bp: "2 ^ nat (bitlen p - 1) \<le> p" "p < 2 ^ nat (bitlen p)" using bitlen_bounds [OF p] by auto
  have bq: "2 ^ nat (bitlen q - 1) \<le> q" "q < 2 ^ nat (bitlen q)" using bitlen_bounds [OF q] by auto
  have bp1: "1 \<le> bitlen p" using p by (auto simp: bitlen_alt_def)
  have bq1: "1 \<le> bitlen q" using q by (auto simp: bitlen_alt_def)
  have P1: "(2::rat) powi (bitlen p - 1) \<le> of_int p"
  proof -
    have "(2::rat) powi (bitlen p - 1) = of_int (2 ^ nat (bitlen p - 1))"
      using bp1 by (simp add: power_int_def)
    also have "\<dots> \<le> of_int p" using bp(1) by (simp only: of_int_le_iff)
    finally show ?thesis .
  qed
  have P2: "of_int p < (2::rat) powi (bitlen p)"
  proof -
    have "(2::rat) powi (bitlen p) = of_int (2 ^ nat (bitlen p))"
      using bp1 by (simp add: power_int_def)
    moreover have "(of_int p :: rat) < of_int (2 ^ nat (bitlen p))" using bp(2) by (simp only: of_int_less_iff)
    ultimately show ?thesis by simp
  qed
  have Q1: "(2::rat) powi (bitlen q - 1) \<le> of_int q"
  proof -
    have "(2::rat) powi (bitlen q - 1) = of_int (2 ^ nat (bitlen q - 1))"
      using bq1 by (simp add: power_int_def)
    also have "\<dots> \<le> of_int q" using bq(1) by (simp only: of_int_le_iff)
    finally show ?thesis .
  qed
  have Q2: "of_int q < (2::rat) powi (bitlen q)"
  proof -
    have "(2::rat) powi (bitlen q) = of_int (2 ^ nat (bitlen q))"
      using bq1 by (simp add: power_int_def)
    moreover have "(of_int q :: rat) < of_int (2 ^ nat (bitlen q))" using bq(2) by (simp only: of_int_less_iff)
    ultimately show ?thesis by simp
  qed
  have pr: "(0::rat) < of_int p" and qr: "(0::rat) < of_int q" using p q by simp_all
  have lo: "2 powi (k - 1) < x"
  proof -
    have "(2::rat) powi (k - 1) = 2 powi ((bitlen p - 1) - bitlen q)" by (simp add: k_def algebra_simps)
    also have "\<dots> = 2 powi (bitlen p - 1) / 2 powi (bitlen q)" by (simp add: power_int_diff)
    also have "\<dots> \<le> of_int p / 2 powi (bitlen q)" using P1 by (simp add: divide_right_mono)
    also have "\<dots> < of_int p / of_int q" using Q2 pr qr by (simp add: divide_strict_left_mono)
    finally show ?thesis unfolding x .
  qed
  have hi: "x < 2 powi (k + 1)"
  proof -
    have "x = of_int p / of_int q" by (rule x)
    also have "\<dots> < 2 powi (bitlen p) / of_int q" using P2 qr by (simp add: divide_strict_right_mono)
    also have "\<dots> \<le> 2 powi (bitlen p) / 2 powi (bitlen q - 1)" using Q1 qr by (simp add: divide_left_mono)
    also have "\<dots> = 2 powi (bitlen p - (bitlen q - 1))" by (simp add: power_int_diff)
    also have "\<dots> = 2 powi (k + 1)" by (simp add: k_def algebra_simps)
    finally show ?thesis .
  qed
  show ?thesis unfolding ilog2_def using lo hi pq by (auto simp: Let_def k_def)
qed

lemma ilog2_eqI:
  assumes "2 powi k \<le> x" "x < 2 powi (k + 1)"
  shows "ilog2 x = k"
proof -
  have x: "0 < x" using assms(1) p2_pos [of k] by linarith
  note b = ilog2_bounds [OF x]
  have "(2::rat) powi k < 2 powi (ilog2 x + 1)" using assms(1) b by linarith
  then have 1: "k < ilog2 x + 1" by (simp only: p2_less_iff)
  have "(2::rat) powi (ilog2 x) < 2 powi (k + 1)" using assms(2) b by linarith
  then have 2: "ilog2 x < k + 1" by (simp only: p2_less_iff)
  show ?thesis using 1 2 by linarith
qed

lemma p2_nat: "0 \<le> n \<Longrightarrow> (2::rat) powi n = of_int (2 ^ nat n)"
  by (simp add: power_int_def)

lemma rnd_uminus: "rnd (- x) = - rnd x"
  by (simp add: rnd_def fexp_def rne_uminus)

lemma rnd_nonneg: "0 \<le> x \<Longrightarrow> 0 \<le> rnd x"
proof -
  assume x: "0 \<le> x"
  have "0 \<le> x / 2 powi fexp x" using x p2_pos [of "fexp x"] by simp
  then have "rne 0 \<le> rne (x / 2 powi fexp x)" by (rule rne_mono)
  then have "0 \<le> rne (x / 2 powi fexp x)" using rne_of_int [of 0] by simp
  then show ?thesis using p2_pos [of "fexp x"] by (simp add: rnd_def)
qed

lemma rnd_mono_pos:
  assumes x: "0 < x" and xy: "x \<le> y"
  shows "rnd x \<le> rnd y"
proof -
  have y: "0 < y" using x xy by simp
  define kx where "kx = ilog2 x"
  define ky where "ky = ilog2 y"
  define ex where "ex = fexp x"
  define ey where "ey = fexp y"
  have bx: "2 powi kx \<le> x" "x < 2 powi (kx + 1)" using ilog2_bounds [OF x] by (simp_all add: kx_def)
  have byy: "2 powi ky \<le> y" "y < 2 powi (ky + 1)" using ilog2_bounds [OF y] by (simp_all add: ky_def)
  have "(2::rat) powi kx < 2 powi (ky + 1)" using bx(1) xy byy(2) by linarith
  then have k: "kx \<le> ky" by (simp add: p2_less_iff)
  have ex: "ex = max (kx - 52) (- 1074)" using x by (simp add: ex_def fexp_def kx_def)
  have ey: "ey = max (ky - 52) (- 1074)" using y by (simp add: ey_def fexp_def ky_def)
  have rx: "rnd x = of_int (rne (x / 2 powi ex)) * 2 powi ex" using x by (simp add: rnd_def ex_def)
  have ry: "rnd y = of_int (rne (y / 2 powi ey)) * 2 powi ey" using y by (simp add: rnd_def ey_def)
  have e: "ex \<le> ey" using k ex ey by simp
  show ?thesis
  proof (cases "ex = ey")
    case True
    have "x / 2 powi ey \<le> y / 2 powi ey" using xy p2_pos [of ey] by (simp add: divide_right_mono)
    then have "rne (x / 2 powi ey) \<le> rne (y / 2 powi ey)" by (rule rne_mono)
    then have "(of_int (rne (x / 2 powi ey)) :: rat) \<le> of_int (rne (y / 2 powi ey))" by simp
    then show ?thesis unfolding rx ry True using p2_pos [of ey] by (simp add: mult_right_mono)
  next
    case False
    then have lt: "ex < ey" using e by simp
    then have ey': "ey = ky - 52" using ex ey by linarith
    have kk: "kx < ky" using lt ex ey' by linarith
    have xk: "x \<le> 2 powi ky"
    proof -
      have "(2::rat) powi (kx + 1) \<le> 2 powi ky" using kk by (simp add: p2_le_iff)
      then show ?thesis using bx(2) by linarith
    qed
    have d: "0 \<le> ky - ex" using lt ey' by linarith
    have "x / 2 powi ex \<le> 2 powi ky / 2 powi ex" using xk p2_pos [of ex] by (simp add: divide_right_mono)
    also have "\<dots> = of_int (2 ^ nat (ky - ex))" using p2_nat [OF d] by (simp add: p2_diff)
    finally have "rne (x / 2 powi ex) \<le> rne (of_int (2 ^ nat (ky - ex)))" by (rule rne_mono)
    then have "rne (x / 2 powi ex) \<le> 2 ^ nat (ky - ex)" by (simp only: rne_of_int)
    then have "(of_int (rne (x / 2 powi ex)) :: rat) \<le> of_int (2 ^ nat (ky - ex))" by (simp only: of_int_le_iff)
    then have "rnd x \<le> of_int (2 ^ nat (ky - ex)) * 2 powi ex"
      unfolding rx using p2_pos [of ex] by (simp add: mult_right_mono)
    also have "\<dots> = 2 powi (ky - ex) * 2 powi ex" using p2_nat [OF d] by simp
    also have "\<dots> = 2 powi ky" by (simp add: p2_add [symmetric])
    finally have 1: "rnd x \<le> 2 powi ky" .
    have "(of_int (2 ^ 52) :: rat) = 2 powi (ky - ey)" using p2_nat [of 52] by (simp add: ey')
    also have "\<dots> = 2 powi ky / 2 powi ey" by (simp add: p2_diff)
    also have "\<dots> \<le> y / 2 powi ey" using byy(1) p2_pos [of ey] by (simp add: divide_right_mono)
    finally have "rne (of_int (2 ^ 52)) \<le> rne (y / 2 powi ey)" by (rule rne_mono)
    then have "2 ^ 52 \<le> rne (y / 2 powi ey)" by (simp only: rne_of_int)
    then have "(of_int (2 ^ 52) :: rat) \<le> of_int (rne (y / 2 powi ey))" by (simp only: of_int_le_iff)
    then have "of_int (2 ^ 52) * 2 powi ey \<le> rnd y"
      unfolding ry using p2_pos [of ey] by (simp add: mult_right_mono)
    moreover have "(of_int (2 ^ 52) :: rat) * 2 powi ey = 2 powi (52 + ey)" using p2_nat [of 52] by (simp add: p2_add)
    moreover have "52 + ey = ky" using ey' by simp
    ultimately have 2: "2 powi ky \<le> rnd y" by simp
    show ?thesis using 1 2 by linarith
  qed
qed

lemma rnd_mono: "x \<le> y \<Longrightarrow> rnd x \<le> rnd y"
proof -
  assume xy: "x \<le> y"
  consider "0 < x" | "x \<le> 0" "0 \<le> y" | "y < 0" by linarith
  then show ?thesis
  proof cases
    case 1
    then show ?thesis using xy by (rule rnd_mono_pos)
  next
    case 2
    have "0 \<le> rnd (- x)" using 2(1) by (intro rnd_nonneg) simp
    then have "rnd x \<le> 0" by (simp add: rnd_uminus)
    moreover have "0 \<le> rnd y" using 2(2) by (rule rnd_nonneg)
    ultimately show ?thesis by linarith
  next
    case 3
    then have "rnd (- y) \<le> rnd (- x)" using xy by (intro rnd_mono_pos) simp_all
    then show ?thesis by (simp add: rnd_uminus)
  qed
qed

lemma round64_mono: "x \<le> y \<Longrightarrow> fle (round64 x) (round64 y)"
  using rnd_mono [of x y] by (auto simp: round64_def Let_def)

lemma rnd_eval:
  assumes "x \<noteq> 0" and "2 powi k \<le> \<bar>x\<bar>" and "\<bar>x\<bar> < 2 powi (k + 1)"
    and "e = max (k - 52) (- 1074)"
    and "\<bar>x / 2 powi e - of_int m\<bar> < 1 / 2 \<or> (\<bar>x / 2 powi e - of_int m\<bar> = 1 / 2 \<and> even m)"
  shows "rnd x = of_int m * 2 powi e"
proof -
  have k: "ilog2 \<bar>x\<bar> = k" using assms(2,3) by (rule ilog2_eqI)
  have e: "fexp x = e" by (simp add: fexp_def k assms(4))
  have m: "rne (x / 2 powi e) = m" using assms(5) by (rule rne_eqI)
  show ?thesis using assms(1) by (simp add: rnd_def e m)
qed

lemma round64_eval:
  assumes "x \<noteq> 0" and "2 powi k \<le> \<bar>x\<bar>" and "\<bar>x\<bar> < 2 powi (k + 1)"
    and "e = max (k - 52) (- 1074)"
    and "\<bar>x / 2 powi e - of_int m\<bar> < 1 / 2 \<or> (\<bar>x / 2 powi e - of_int m\<bar> = 1 / 2 \<and> even m)"
    and "\<bar>of_int m * 2 powi e :: rat\<bar> < 2 ^ 1024"
  shows "round64 x = Fin (of_int m * 2 powi e)"
proof -
  have "rnd x = of_int m * 2 powi e" using assms(1-5) by (rule rnd_eval)
  then show ?thesis using assms(6) by (simp add: round64_def Let_def abs_if split: if_splits)
qed

lemma round64_zero: "round64 0 = Fin 0"
  by (simp add: round64_def rnd_def)

lemma round64_between:
  assumes "a \<le> x" and "x \<le> b" and "round64 a = Fin a'" and "round64 b = Fin b'"
  shows "\<exists>r. round64 x = Fin r \<and> a' \<le> r \<and> r \<le> b'"
proof -
  have 1: "fle (Fin a') (round64 x)" using round64_mono [OF assms(1)] assms(3) by simp
  have 2: "fle (round64 x) (Fin b')" using round64_mono [OF assms(2)] assms(4) by simp
  show ?thesis using 1 2 by (cases "round64 x") simp_all
qed

section \<open>The dispatch on sex\<close>

lemma watson_male:
  "watson_tbw_liters (ascii ''male'') w h age =
     (case int_to_float age of
        Inl e \<Rightarrow> Inl e
      | Inr a \<Rightarrow>
          Inr (fadd (fadd (fsub (lit (2447 / 1000)) (fmul (lit (9516 / 100000)) a))
                          (fmul (lit (1074 / 10000)) h))
                    (fmul (lit (3362 / 10000)) w)))"
  by (simp add: watson_tbw_liters_def)

lemma watson_not_male:
  "sx \<noteq> ascii ''male'' \<Longrightarrow>
   watson_tbw_liters sx w h age =
     Inr (fadd (fadd (fneg (lit (2097 / 1000))) (fmul (lit (1069 / 10000)) h))
               (fmul (lit (2466 / 10000)) w))"
  by (simp add: watson_tbw_liters_def)

text \<open>
  C9 (as the code has it). The function compares \<^verbatim>\<open>sex\<close> with \<^verbatim>\<open>"male"\<close> and sends every
  other string through its \<^verbatim>\<open>else\<close> branch: a value that is neither \<^verbatim>\<open>"male"\<close> nor
  \<^verbatim>\<open>"female"\<close> is not rejected, it gets the result of \<^verbatim>\<open>"female"\<close>.
\<close>

theorem watson_dispatch_default:
  "watson_tbw_liters sx w h age =
     (if sx = ascii ''male'' then watson_tbw_liters (ascii ''male'') w h age
      else watson_tbw_liters (ascii ''female'') w h age)"
  by (simp add: watson_tbw_liters_def ascii_def)

text \<open>
  C9 as claimed fails: the string \<^verbatim>\<open>"other"\<close> is neither of the two recognised values, and
  the function maps it to the formula of \<^verbatim>\<open>"female"\<close>.
\<close>

theorem watson_third_value_counterexample:
  "ascii ''other'' \<noteq> ascii ''male'' \<and> ascii ''other'' \<noteq> ascii ''female'' \<and>
   watson_tbw_liters (ascii ''other'') (Fin 70) (Fin 170) 30 =
     Inr (fadd (fadd (fneg (lit (2097 / 1000))) (fmul (lit (1069 / 10000)) (Fin 170)))
               (fmul (lit (2466 / 10000)) (Fin 70)))"
  by (simp add: watson_tbw_liters_def ascii_def)

section \<open>The parser and the five steps of the specification\<close>





































section \<open>The range of the floats\<close>

lemma round64_uminus: "round64 (- x) = fneg (round64 x)"
proof -
  define B :: rat where "B = 2 ^ 1024"
  have B: "0 < B" by (simp add: B_def)
  have r: "round64 y = (if B \<le> rnd y then PInf else if rnd y \<le> - B then NInf else Fin (rnd y))"
    for y unfolding round64_def Let_def B_def ..
  show ?thesis unfolding r rnd_uminus using B by auto
qed

lemma rnd_threshold: "rnd OVERFLOW_THRESHOLD = 2 ^ 1024"
  using rnd_eval [of "2 ^ 1024 - 2 ^ 970" 1023 971 "2 ^ 53"] by (simp add: OVERFLOW_THRESHOLD_def)

lemma round64_overflow:
  assumes "OVERFLOW_THRESHOLD \<le> x"
  shows "round64 x = PInf"
proof -
  have "rnd OVERFLOW_THRESHOLD \<le> rnd x" using assms by (rule rnd_mono)
  then have "2 ^ 1024 \<le> rnd x" by (simp only: rnd_threshold)
  then show ?thesis by (simp only: round64_def Let_def if_True)
qed


lemma round64_below_threshold: "round64 (OVERFLOW_THRESHOLD - 1) = Fin MAX_FLOAT"
  using round64_eval [of "2 ^ 1024 - 2 ^ 970 - 1" 1023 971 "2 ^ 53 - 1"]
  by (simp add: MAX_FLOAT_def OVERFLOW_THRESHOLD_def)

lemma threshold_int: "OVERFLOW_THRESHOLD = of_int (2 ^ 1024 - 2 ^ 970)"
  by (simp add: OVERFLOW_THRESHOLD_def)

lemma round64_finite_int:
  assumes "\<bar>of_int n :: rat\<bar> < OVERFLOW_THRESHOLD"
  shows "\<exists>r. round64 (of_int n) = Fin r \<and> \<bar>r\<bar> \<le> MAX_FLOAT"
proof -
  define T :: int where "T = 2 ^ 1024 - 2 ^ 970"
  have T: "OVERFLOW_THRESHOLD = of_int T" unfolding T_def by (rule threshold_int)
  have "(of_int \<bar>n\<bar> :: rat) < of_int T" using assms unfolding T by simp
  then have "\<bar>n\<bar> < T" by (simp only: of_int_less_iff)
  then have "\<bar>n\<bar> \<le> T - 1" by simp
  then have "(of_int \<bar>n\<bar> :: rat) \<le> of_int (T - 1)" by (simp only: of_int_le_iff)
  then have b: "\<bar>of_int n :: rat\<bar> \<le> OVERFLOW_THRESHOLD - 1" unfolding T by simp
  have lo: "round64 (- (OVERFLOW_THRESHOLD - 1)) = Fin (- MAX_FLOAT)"
    by (simp only: round64_uminus round64_below_threshold fneg.simps)
  have "\<exists>r. round64 (of_int n) = Fin r \<and> - MAX_FLOAT \<le> r \<and> r \<le> MAX_FLOAT"
    using b by (intro round64_between [OF _ _ lo round64_below_threshold]) linarith+
  then show ?thesis by (auto simp: abs_le_iff)
qed

lemma int_to_float_error_iff:
  "int_to_float n = Inl e \<longleftrightarrow> e = OverflowError \<and> OVERFLOW_THRESHOLD \<le> \<bar>of_int n :: rat\<bar>"
proof (cases "\<bar>of_int n :: rat\<bar> < OVERFLOW_THRESHOLD")
  case True
  then obtain r where "round64 (of_int n) = Fin r" using round64_finite_int by blast
  then show ?thesis using True by (simp add: int_to_float_def)
next
  case False
  then have ge: "OVERFLOW_THRESHOLD \<le> \<bar>of_int n :: rat\<bar>" by simp
  have "round64 (of_int n) = PInf \<or> round64 (of_int n) = NInf"
  proof (cases "0 \<le> n")
    case True
    then have "OVERFLOW_THRESHOLD \<le> (of_int n :: rat)" using ge by simp
    then show ?thesis by (simp add: round64_overflow)
  next
    case False
    then have "OVERFLOW_THRESHOLD \<le> - (of_int n :: rat)" using ge by simp
    then have "round64 (- of_int n) = PInf" by (rule round64_overflow)
    then have "fneg (round64 (of_int n)) = PInf" by (simp only: round64_uminus)
    then show ?thesis by (cases "round64 (of_int n)") simp_all
  qed
  then show ?thesis using ge by (auto simp: int_to_float_def)
qed

lemma int_to_float_cases:
  obtains (overflow) "int_to_float n = Inl OverflowError" "OVERFLOW_THRESHOLD \<le> \<bar>of_int n :: rat\<bar>"
  | (finite) r where "int_to_float n = Inr (Fin r)" "\<bar>r\<bar> \<le> MAX_FLOAT" "\<bar>of_int n :: rat\<bar> < OVERFLOW_THRESHOLD"
proof (cases "\<bar>of_int n :: rat\<bar> < OVERFLOW_THRESHOLD")
  case True
  then obtain r where "round64 (of_int n) = Fin r" "\<bar>r\<bar> \<le> MAX_FLOAT" using round64_finite_int by blast
  then show ?thesis using True finite by (simp add: int_to_float_def)
next
  case False
  then show ?thesis using overflow int_to_float_error_iff [of n OverflowError] by simp
qed

lemma fdiv_nonzero: "b \<noteq> 0 \<Longrightarrow> \<exists>y. fdiv x (Fin b) = Inr y"
  by (cases x) simp_all

section \<open>The two reference inputs, evaluated\<close>

lemma round64_30: "round64 30 = Fin 30"
  using round64_eval [of "30" "4" "- 48" "8444249301319680"] by (simp add: power_int_minus)

lemma lit_80: "lit (80) = Fin 80"
  using round64_eval [of "80" "6" "- 46" "5629499534213120"] by (simp add: power_int_minus lit_def)

lemma lit_180: "lit (180) = Fin 180"
  using round64_eval [of "180" "7" "- 45" "6333186975989760"] by (simp add: power_int_minus lit_def)

lemma lit_3: "lit (3) = Fin 3"
  using round64_eval [of "3" "1" "- 51" "6755399441055744"] by (simp add: power_int_minus lit_def)

lemma lit_0_08: "lit (8 / 100) = Fin (5764607523034235 / 72057594037927936)"
  using round64_eval [of "8 / 100" "- 4" "- 56" "5764607523034235"] by (simp add: power_int_minus lit_def)

lemma lit_0_015: "lit (15 / 1000) = Fin (1080863910568919 / 72057594037927936)"
  using round64_eval [of "15 / 1000" "- 7" "- 59" "8646911284551352"] by (simp add: power_int_minus lit_def)

lemma lit_2_447: "lit (2447 / 1000) = Fin (2755077072043901 / 1125899906842624)"
  using round64_eval [of "2447 / 1000" "1" "- 51" "5510154144087802"] by (simp add: power_int_minus lit_def)

lemma lit_0_09516: "lit (9516 / 100000) = Fin (3428500324324611 / 36028797018963968)"
  using round64_eval [of "9516 / 100000" "- 4" "- 56" "6857000648649222"] by (simp add: power_int_minus lit_def)

lemma lit_0_1074: "lit (1074 / 10000) = Fin (1934746399918365 / 18014398509481984)"
  using round64_eval [of "1074 / 10000" "- 4" "- 56" "7738985599673460"] by (simp add: power_int_minus lit_def)

lemma lit_0_3362: "lit (3362 / 10000) = Fin (6056440778887843 / 18014398509481984)"
  using round64_eval [of "3362 / 10000" "- 2" "- 54" "6056440778887843"] by (simp add: power_int_minus lit_def)

lemma sc_age: "fmul (Fin (3428500324324611 / 36028797018963968)) (Fin 30) = Fin (3214219054054323 / 1125899906842624)"
  using round64_eval [of "(3428500324324611 / 36028797018963968) * 30" "1" "- 51" "6428438108108646"] by (simp add: power_int_minus)

lemma sc_sub: "fsub (Fin (2755077072043901 / 1125899906842624)) (Fin (3214219054054323 / 1125899906842624)) = Fin (- (229570991005211 / 562949953421312))"
  using round64_eval [of "(2755077072043901 / 1125899906842624) - (3214219054054323 / 1125899906842624)" "- 2" "- 54" "- 7346271712166752"] by (simp add: power_int_minus fsub_def)

lemma sc_height: "fmul (Fin (1934746399918365 / 18014398509481984)) (Fin 180) = Fin (2720737124885201 / 140737488355328)"
  using round64_eval [of "(1934746399918365 / 18014398509481984) * 180" "4" "- 48" "5441474249770402"] by (simp add: power_int_minus)

lemma sc_add1: "fadd (Fin (- (229570991005211 / 562949953421312))) (Fin (2720737124885201 / 140737488355328)) = Fin (1331672188566949 / 70368744177664)"
  using round64_eval [of "(- (229570991005211 / 562949953421312)) + (2720737124885201 / 140737488355328)" "4" "- 48" "5326688754267796"] by (simp add: power_int_minus)

lemma sc_weight: "fmul (Fin (6056440778887843 / 18014398509481984)) (Fin 80) = Fin (1892637743402451 / 70368744177664)"
  using round64_eval [of "(6056440778887843 / 18014398509481984) * 80" "4" "- 48" "7570550973609804"] by (simp add: power_int_minus)

lemma sc_tbw: "fadd (Fin (1331672188566949 / 70368744177664)) (Fin (1892637743402451 / 70368744177664)) = Fin (403038741496175 / 8796093022208)"
  using round64_eval [of "(1331672188566949 / 70368744177664) + (1892637743402451 / 70368744177664)" "5" "- 47" "6448619863938800"] by (simp add: power_int_minus)

lemma lit_10: "lit (10) = Fin 10"
  using round64_eval [of "10" "3" "- 49" "5629499534213120"] by (simp add: power_int_minus lit_def)

lemma sc_dL: "fmul (Fin (403038741496175 / 8796093022208)) (Fin 10) = Fin (2015193707480875 / 4398046511104)"
  using round64_eval [of "(403038741496175 / 8796093022208) * 10" "8" "- 44" "8060774829923500"] by (simp add: power_int_minus)

lemma sc_loading: "fmul (Fin (5764607523034235 / 72057594037927936)) (Fin (2015193707480875 / 4398046511104)) = Fin (80607748299235 / 2199023255552)"
  using round64_eval [of "(5764607523034235 / 72057594037927936) * (2015193707480875 / 4398046511104)" "5" "- 47" "5158895891151040"] by (simp add: power_int_minus)

lemma sc_maint: "fmul (Fin (1080863910568919 / 72057594037927936)) (Fin (2015193707480875 / 4398046511104)) = Fin (241823244897705 / 35184372088832)"
  using round64_eval [of "(1080863910568919 / 72057594037927936) * (2015193707480875 / 4398046511104)" "2" "- 50" "7738343836726560"] by (simp add: power_int_minus)

lemma sc_maint_d: "fmul (Fin (241823244897705 / 35184372088832)) (Fin 3) = Fin (725469734693115 / 35184372088832)"
  using round64_eval [of "(241823244897705 / 35184372088832) * 3" "4" "- 48" "5803757877544920"] by (simp add: power_int_minus)

lemma sc_total: "fadd (Fin (80607748299235 / 2199023255552)) (Fin (725469734693115 / 35184372088832)) = Fin (2015193707480875 / 35184372088832)"
  using round64_eval [of "(80607748299235 / 2199023255552) + (725469734693115 / 35184372088832)" "5" "- 47" "8060774829923500"] by (simp add: power_int_minus)

lemma lit_12: "lit (12) = Fin 12"
  using round64_eval [of "12" "3" "- 49" "6755399441055744"] by (simp add: power_int_minus lit_def)

lemma sc_d12: "fdiv (Fin (2015193707480875 / 35184372088832)) (Fin 12) = Inr (Fin (5373849886615667 / 1125899906842624))"
  using round64_eval [of "(2015193707480875 / 35184372088832) / 12" "2" "- 50" "5373849886615667"] by (simp add: power_int_minus)

lemma lit_14: "lit (14) = Fin 14"
  using round64_eval [of "14" "3" "- 49" "7881299347898368"] by (simp add: power_int_minus lit_def)

lemma sc_d14: "fdiv (Fin (2015193707480875 / 35184372088832)) (Fin 14) = Inr (Fin (4606157045670571 / 1125899906842624))"
  using round64_eval [of "(2015193707480875 / 35184372088832) / 14" "2" "- 50" "4606157045670571"] by (simp add: power_int_minus)

lemma lit_0_789: "lit (789 / 1000) = Fin (7106680211990643 / 9007199254740992)"
  using round64_eval [of "789 / 1000" "- 1" "- 53" "7106680211990643"] by (simp add: power_int_minus lit_def)

lemma sc_lml: "fdiv (Fin (80607748299235 / 2199023255552)) (Fin (7106680211990643 / 9007199254740992)) = Inr (Fin (6538524576870773 / 140737488355328))"
  using round64_eval [of "(80607748299235 / 2199023255552) / (7106680211990643 / 9007199254740992)" "5" "- 47" "6538524576870773"] by (simp add: power_int_minus)

lemma sc_mml: "fdiv (Fin (241823244897705 / 35184372088832)) (Fin (7106680211990643 / 9007199254740992)) = Inr (Fin (612986679081635 / 70368744177664))"
  using round64_eval [of "(241823244897705 / 35184372088832) / (7106680211990643 / 9007199254740992)" "3" "- 49" "4903893432653080"] by (simp add: power_int_minus)

lemma sc_tml: "fdiv (Fin (2015193707480875 / 35184372088832)) (Fin (7106680211990643 / 9007199254740992)) = Inr (Fin (5108222325680291 / 70368744177664))"
  using round64_eval [of "(2015193707480875 / 35184372088832) / (7106680211990643 / 9007199254740992)" "6" "- 46" "5108222325680291"] by (simp add: power_int_minus)

lemma lit_45_8202: "lit (458202 / 10000) = Fin (403038741496175 / 8796093022208)"
  using round64_eval [of "458202 / 10000" "5" "- 47" "6448619863938800"] by (simp add: power_int_minus lit_def)

lemma lit_458_202: "lit (458202 / 1000) = Fin (2015193707480875 / 4398046511104)"
  using round64_eval [of "458202 / 1000" "8" "- 44" "8060774829923500"] by (simp add: power_int_minus lit_def)

lemma lit_36_65616: "lit (3665616 / 100000) = Fin (80607748299235 / 2199023255552)"
  using round64_eval [of "3665616 / 100000" "5" "- 47" "5158895891151040"] by (simp add: power_int_minus lit_def)

lemma lit_6_87303: "lit (687303 / 100000) = Fin (241823244897705 / 35184372088832)"
  using round64_eval [of "687303 / 100000" "2" "- 50" "7738343836726560"] by (simp add: power_int_minus lit_def)

lemma lit_57_27525: "lit (5727525 / 100000) = Fin (2015193707480875 / 35184372088832)"
  using round64_eval [of "5727525 / 100000" "5" "- 47" "8060774829923500"] by (simp add: power_int_minus lit_def)

lemma lit_4_7729375: "lit (47729375 / 10000000) = Fin (5373849886615667 / 1125899906842624)"
  using round64_eval [of "47729375 / 10000000" "2" "- 50" "5373849886615667"] by (simp add: power_int_minus lit_def)

lemma lit_4_091089285714285: "lit (4091089285714285 / 1000000000000000) = Fin (4606157045670571 / 1125899906842624)"
  using round64_eval [of "4091089285714285 / 1000000000000000" "2" "- 50" "4606157045670571"] by (simp add: power_int_minus lit_def)

lemma lit_46_459011406844105: "lit (46459011406844105 / 1000000000000000) = Fin (6538524576870773 / 140737488355328)"
  using round64_eval [of "46459011406844105 / 1000000000000000" "5" "- 47" "6538524576870773"] by (simp add: power_int_minus lit_def)

lemma lit_8_71106463878327: "lit (871106463878327 / 100000000000000) = Fin (612986679081635 / 70368744177664)"
  using round64_eval [of "871106463878327 / 100000000000000" "3" "- 49" "4903893432653080"] by (simp add: power_int_minus lit_def)

lemma lit_72_59220532319391: "lit (7259220532319391 / 100000000000000) = Fin (5108222325680291 / 70368744177664)"
  using round64_eval [of "7259220532319391 / 100000000000000" "6" "- 46" "5108222325680291"] by (simp add: power_int_minus lit_def)

lemma lit_36_656: "lit (36656 / 1000) = Fin (5158873373152903 / 140737488355328)"
  using round64_eval [of "36656 / 1000" "5" "- 47" "5158873373152903"] by (simp add: power_int_minus lit_def)

lemma lit_6_873: "lit (6873 / 1000) = Fin (7738310059729355 / 1125899906842624)"
  using round64_eval [of "6873 / 1000" "2" "- 50" "7738310059729355"] by (simp add: power_int_minus lit_def)

lemma lit_57_275: "lit (57275 / 1000) = Fin (8060739645551411 / 140737488355328)"
  using round64_eval [of "57275 / 1000" "5" "- 47" "8060739645551411"] by (simp add: power_int_minus lit_def)

lemma lit_4_765: "lit (4765 / 1000) = Fin (5364913056105103 / 1125899906842624)"
  using round64_eval [of "4765 / 1000" "2" "- 50" "5364913056105103"] by (simp add: power_int_minus lit_def)

lemma lit_4_775: "lit (4775 / 1000) = Fin (2688086027586765 / 562949953421312)"
  using round64_eval [of "4775 / 1000" "2" "- 50" "5376172055173530"] by (simp add: power_int_minus lit_def)

lemma lit_4_085: "lit (4085 / 1000) = Fin (4599301119452119 / 1125899906842624)"
  using round64_eval [of "4085 / 1000" "2" "- 50" "4599301119452119"] by (simp add: power_int_minus lit_def)

lemma lit_4_095: "lit (4095 / 1000) = Fin (4610560118520545 / 1125899906842624)"
  using round64_eval [of "4095 / 1000" "2" "- 50" "4610560118520545"] by (simp add: power_int_minus lit_def)

lemma round64_20: "round64 20 = Fin 20"
  using round64_eval [of "20" "4" "- 48" "5629499534213120"] by (simp add: power_int_minus)

lemma lit_90: "lit (90) = Fin 90"
  using round64_eval [of "90" "6" "- 46" "6333186975989760"] by (simp add: power_int_minus lit_def)

lemma lit_170: "lit (170) = Fin 170"
  using round64_eval [of "170" "7" "- 45" "5981343255101440"] by (simp add: power_int_minus lit_def)

lemma lit_1_5: "lit (15 / 10) = Fin (3 / 2)"
  using round64_eval [of "15 / 10" "0" "- 52" "6755399441055744"] by (simp add: power_int_minus lit_def)

lemma lit_0_02: "lit (2 / 100) = Fin (5764607523034235 / 288230376151711744)"
  using round64_eval [of "2 / 100" "- 6" "- 58" "5764607523034235"] by (simp add: power_int_minus lit_def)

lemma lit_2_097: "lit (2097 / 1000) = Fin (4722024209297965 / 2251799813685248)"
  using round64_eval [of "2097 / 1000" "1" "- 51" "4722024209297965"] by (simp add: power_int_minus lit_def)

lemma lit_0_1069: "lit (1069 / 10000) = Fin (240717400082953 / 2251799813685248)"
  using round64_eval [of "1069 / 10000" "- 4" "- 56" "7702956802654496"] by (simp add: power_int_minus lit_def)

lemma lit_0_2466: "lit (2466 / 10000) = Fin (8884701344876515 / 36028797018963968)"
  using round64_eval [of "2466 / 10000" "- 3" "- 55" "8884701344876515"] by (simp add: power_int_minus lit_def)

lemma sd_height: "fmul (Fin (240717400082953 / 2251799813685248)) (Fin 170) = Fin (5115244751762751 / 281474976710656)"
  using round64_eval [of "(240717400082953 / 2251799813685248) * 170" "4" "- 48" "5115244751762751"] by (simp add: power_int_minus)

lemma sd_add1: "fadd (Fin (- (4722024209297965 / 2251799813685248))) (Fin (5115244751762751 / 281474976710656)) = Fin (4524991725600505 / 281474976710656)"
  using round64_eval [of "(- (4722024209297965 / 2251799813685248)) + (5115244751762751 / 281474976710656)" "4" "- 48" "4524991725600505"] by (simp add: power_int_minus)

lemma sd_weight: "fmul (Fin (8884701344876515 / 36028797018963968)) (Fin 90) = Fin (1561763908279075 / 70368744177664)"
  using round64_eval [of "(8884701344876515 / 36028797018963968) * 90" "4" "- 48" "6247055633116300"] by (simp add: power_int_minus)

lemma sd_tbw: "fadd (Fin (4524991725600505 / 281474976710656)) (Fin (1561763908279075 / 70368744177664)) = Fin (2693011839679201 / 70368744177664)"
  using round64_eval [of "(4524991725600505 / 281474976710656) + (1561763908279075 / 70368744177664)" "5" "- 47" "5386023679358402"] by (simp add: power_int_minus)

lemma sd_dL: "fmul (Fin (2693011839679201 / 70368744177664)) (Fin 10) = Fin (3366264799599001 / 8796093022208)"
  using round64_eval [of "(2693011839679201 / 70368744177664) * 10" "8" "- 44" "6732529599198002"] by (simp add: power_int_minus)

lemma sd_loading: "fmul (Fin (5764607523034235 / 288230376151711744)) (Fin (3366264799599001 / 8796093022208)) = Fin (8617637886973443 / 1125899906842624)"
  using round64_eval [of "(5764607523034235 / 288230376151711744) * (3366264799599001 / 8796093022208)" "2" "- 50" "8617637886973443"] by (simp add: power_int_minus)

lemma sd_maint: "fmul (Fin (1080863910568919 / 72057594037927936)) (Fin (3366264799599001 / 8796093022208)) = Fin (3231614207615041 / 562949953421312)"
  using round64_eval [of "(1080863910568919 / 72057594037927936) * (3366264799599001 / 8796093022208)" "2" "- 50" "6463228415230082"] by (simp add: power_int_minus)

lemma sd_maint_d: "fmul (Fin (3231614207615041 / 562949953421312)) (Fin (3 / 2)) = Fin (2423710655711281 / 281474976710656)"
  using round64_eval [of "(3231614207615041 / 562949953421312) * (3 / 2)" "3" "- 49" "4847421311422562"] by (simp add: power_int_minus)

lemma sd_total: "fadd (Fin (8617637886973443 / 1125899906842624)) (Fin (2423710655711281 / 281474976710656)) = Fin (2289060063727321 / 140737488355328)"
  using round64_eval [of "(8617637886973443 / 1125899906842624) + (2423710655711281 / 281474976710656)" "4" "- 48" "4578120127454642"] by (simp add: power_int_minus)

lemma sd_d12: "fdiv (Fin (2289060063727321 / 140737488355328)) (Fin 12) = Inr (Fin (6104160169939523 / 4503599627370496))"
  using round64_eval [of "(2289060063727321 / 140737488355328) / 12" "0" "- 52" "6104160169939523"] by (simp add: power_int_minus)

lemma sd_d14: "fdiv (Fin (2289060063727321 / 140737488355328)) (Fin 14) = Inr (Fin (5232137288519591 / 4503599627370496))"
  using round64_eval [of "(2289060063727321 / 140737488355328) / 14" "0" "- 52" "5232137288519591"] by (simp add: power_int_minus)

lemma sd_lml: "fdiv (Fin (8617637886973443 / 1125899906842624)) (Fin (7106680211990643 / 9007199254740992)) = Inr (Fin (2730556998407301 / 281474976710656))"
  using round64_eval [of "(8617637886973443 / 1125899906842624) / (7106680211990643 / 9007199254740992)" "3" "- 49" "5461113996814602"] by (simp add: power_int_minus)

lemma sd_mml: "fdiv (Fin (3231614207615041 / 562949953421312)) (Fin (7106680211990643 / 9007199254740992)) = Inr (Fin (8191670995221903 / 1125899906842624))"
  using round64_eval [of "(3231614207615041 / 562949953421312) / (7106680211990643 / 9007199254740992)" "2" "- 50" "8191670995221903"] by (simp add: power_int_minus)

lemma sd_tml: "fdiv (Fin (2289060063727321 / 140737488355328)) (Fin (7106680211990643 / 9007199254740992)) = Inr (Fin (1450608405403879 / 70368744177664))"
  using round64_eval [of "(2289060063727321 / 140737488355328) / (7106680211990643 / 9007199254740992)" "4" "- 48" "5802433621615516"] by (simp add: power_int_minus)

lemma lit_38_269999999999996: "lit (38269999999999996 / 1000000000000000) = Fin (2693011839679201 / 70368744177664)"
  using round64_eval [of "38269999999999996 / 1000000000000000" "5" "- 47" "5386023679358402"] by (simp add: power_int_minus lit_def)

lemma lit_382_69999999999993: "lit (38269999999999993 / 100000000000000) = Fin (3366264799599001 / 8796093022208)"
  using round64_eval [of "38269999999999993 / 100000000000000" "8" "- 44" "6732529599198002"] by (simp add: power_int_minus lit_def)

lemma lit_7_653999999999999: "lit (7653999999999999 / 1000000000000000) = Fin (8617637886973443 / 1125899906842624)"
  using round64_eval [of "7653999999999999 / 1000000000000000" "2" "- 50" "8617637886973443"] by (simp add: power_int_minus lit_def)

lemma lit_5_740499999999999: "lit (5740499999999999 / 1000000000000000) = Fin (3231614207615041 / 562949953421312)"
  using round64_eval [of "5740499999999999 / 1000000000000000" "2" "- 50" "6463228415230082"] by (simp add: power_int_minus lit_def)

lemma lit_16_26475: "lit (1626475 / 100000) = Fin (2289060063727321 / 140737488355328)"
  using round64_eval [of "1626475 / 100000" "4" "- 48" "4578120127454642"] by (simp add: power_int_minus lit_def)

lemma lit_1_3553958333333334: "lit (13553958333333334 / 10000000000000000) = Fin (6104160169939523 / 4503599627370496)"
  using round64_eval [of "13553958333333334 / 10000000000000000" "0" "- 52" "6104160169939523"] by (simp add: power_int_minus lit_def)

lemma lit_1_1617678571428571: "lit (11617678571428571 / 10000000000000000) = Fin (5232137288519591 / 4503599627370496)"
  using round64_eval [of "11617678571428571 / 10000000000000000" "0" "- 52" "5232137288519591"] by (simp add: power_int_minus lit_def)

lemma lit_9_700887198986056: "lit (9700887198986056 / 1000000000000000) = Fin (2730556998407301 / 281474976710656)"
  using round64_eval [of "9700887198986056 / 1000000000000000" "3" "- 49" "5461113996814602"] by (simp add: power_int_minus lit_def)

lemma lit_7_275665399239542: "lit (7275665399239542 / 1000000000000000) = Fin (8191670995221903 / 1125899906842624)"
  using round64_eval [of "7275665399239542 / 1000000000000000" "2" "- 50" "8191670995221903"] by (simp add: power_int_minus lit_def)

lemma lit_20_614385297845374: "lit (20614385297845374 / 1000000000000000) = Fin (1450608405403879 / 70368744177664)"
  using round64_eval [of "20614385297845374 / 1000000000000000" "4" "- 48" "5802433621615516"] by (simp add: power_int_minus lit_def)

lemma sd_mml_d: "fmul (Fin (8191670995221903 / 1125899906842624)) (Fin (3 / 2)) = Fin (6143753246416427 / 562949953421312)"
  using round64_eval [of "(8191670995221903 / 1125899906842624) * (3 / 2)" "3" "- 49" "6143753246416427"] by (simp add: power_int_minus)

lemma sd_rhs: "fadd (Fin (2730556998407301 / 281474976710656)) (Fin (6143753246416427 / 562949953421312)) = Fin (2901216810807757 / 140737488355328)"
  using round64_eval [of "(2730556998407301 / 281474976710656) + (6143753246416427 / 562949953421312)" "4" "- 48" "5802433621615514"] by (simp add: power_int_minus)

lemma lit_20_614385297845367: "lit (20614385297845367 / 1000000000000000) = Fin (2901216810807757 / 140737488355328)"
  using round64_eval [of "20614385297845367 / 1000000000000000" "4" "- 48" "5802433621615514"] by (simp add: power_int_minus lit_def)

lemma sd_diff: "fsub (Fin (1450608405403879 / 70368744177664)) (Fin (2901216810807757 / 140737488355328)) = Fin (1 / 140737488355328)"
  using round64_eval [of "(1450608405403879 / 70368744177664) - (2901216810807757 / 140737488355328)" "- 47" "- 99" "4503599627370496"] by (simp add: power_int_minus fsub_def)

lemma sd_tol: "fmul (Fin (1450608405403879 / 70368744177664)) (Fin (1 / 4503599627370496)) = Fin (1450608405403879 / 316912650057057350374175801344)"
  using round64_eval [of "(1450608405403879 / 70368744177664) * (1 / 4503599627370496)" "- 48" "- 100" "5802433621615516"] by (simp add: power_int_minus)

lemma lit_36_6555: "lit (366555 / 10000) = Fin (2579401502204363 / 70368744177664)"
  using round64_eval [of "366555 / 10000" "5" "- 47" "5158803004408726"] by (simp add: power_int_minus lit_def)

lemma lit_36_6565: "lit (366565 / 10000) = Fin (5158943741897081 / 140737488355328)"
  using round64_eval [of "366565 / 10000" "5" "- 47" "5158943741897081"] by (simp add: power_int_minus lit_def)

lemma lit_6_8725: "lit (68725 / 10000) = Fin (7737747109775933 / 1125899906842624)"
  using round64_eval [of "68725 / 10000" "2" "- 50" "7737747109775933"] by (simp add: power_int_minus lit_def)

lemma lit_6_8735: "lit (68735 / 10000) = Fin (967359126210347 / 140737488355328)"
  using round64_eval [of "68735 / 10000" "2" "- 50" "7738873009682776"] by (simp add: power_int_minus lit_def)

lemma lit_57_2745: "lit (572745 / 10000) = Fin (4030334638403617 / 70368744177664)"
  using round64_eval [of "572745 / 10000" "5" "- 47" "8060669276807234"] by (simp add: power_int_minus lit_def)

lemma lit_57_2755: "lit (572755 / 10000) = Fin (8060810014295589 / 140737488355328)"
  using round64_eval [of "572755 / 10000" "5" "- 47" "8060810014295589"] by (simp add: power_int_minus lit_def)

lemmas scenario_evs = round64_30 lit_80 lit_180 lit_3 lit_0_08 lit_0_015 lit_2_447 lit_0_09516 lit_0_1074 lit_0_3362 sc_age sc_sub sc_height sc_add1 sc_weight sc_tbw lit_10 sc_dL sc_loading sc_maint sc_maint_d sc_total lit_12 sc_d12 lit_14 sc_d14 lit_0_789 sc_lml sc_mml sc_tml lit_45_8202 lit_458_202 lit_36_65616 lit_6_87303 lit_57_27525 lit_4_7729375 lit_4_091089285714285 lit_46_459011406844105 lit_8_71106463878327 lit_72_59220532319391 lit_36_656 lit_6_873 lit_57_275 lit_4_765 lit_4_775 lit_4_085 lit_4_095 round64_20 lit_90 lit_170 lit_1_5 lit_0_02 lit_2_097 lit_0_1069 lit_0_2466 sd_height sd_add1 sd_weight sd_tbw sd_dL sd_loading sd_maint sd_maint_d sd_total sd_d12 sd_d14 sd_lml sd_mml sd_tml lit_38_269999999999996 lit_382_69999999999993 lit_7_653999999999999 lit_5_740499999999999 lit_16_26475 lit_1_3553958333333334 lit_1_1617678571428571 lit_9_700887198986056 lit_7_275665399239542 lit_20_614385297845374 sd_mml_d sd_rhs lit_20_614385297845367 sd_diff sd_tol lit_36_6555 lit_36_6565 lit_6_8725 lit_6_8735 lit_57_2745 lit_57_2755

lemma female_not_male: "ascii ''female'' \<noteq> ascii ''male''"
  by (simp add: ascii_def)

lemma scenario_plan:
  "make_plan scenario =
   Inr \<lparr>tbw_L = lit (458202 / 10000), tbw_dL = lit (458202 / 1000),
        loading_grams = lit (3665616 / 100000), maintenance_g_per_h = lit (687303 / 100000),
        total_grams_for_duration = lit (5727525 / 100000),
        std_drinks_12g = lit (47729375 / 10000000),
        std_drinks_14g = lit (4091089285714285 / 1000000000000000)\<rparr>"
  by (simp only: scenario_def make_plan_def watson_male ETHANOL_DENSITY_def
      Inputs.select_convs int_to_float_def of_int_numeral sum.case pyfloat.case Let_def scenario_evs)



section \<open>The Watson equation and the plan\<close>


lemma density_value: "\<exists>c. ETHANOL_DENSITY = Fin c \<and> c \<noteq> 0"
  unfolding ETHANOL_DENSITY_def lit_0_789 by (intro exI conjI, rule refl) simp

lemma fdiv_density: "\<exists>y. fdiv x ETHANOL_DENSITY = Inr y"
proof -
  obtain c where "ETHANOL_DENSITY = Fin c" "c \<noteq> 0" using density_value by blast
  then show ?thesis using fdiv_nonzero [of c x] by simp
qed

lemma fdiv_12: "\<exists>y. fdiv x (lit 12) = Inr y"
  unfolding lit_12 by (rule fdiv_nonzero) simp

lemma fdiv_14: "\<exists>y. fdiv x (lit 14) = Inr y"
  unfolding lit_14 by (rule fdiv_nonzero) simp

lemma make_plan_fields:
  assumes "make_plan inp = Inr p"
  shows "\<exists>l. watson_tbw_liters (sex inp) (weight_kg inp) (height_cm inp) (age_years inp) = Inr l \<and>
     tbw_L p = l \<and> tbw_dL p = fmul l (lit 10) \<and>
     loading_grams p = fmul (target_bac inp) (tbw_dL p) \<and>
     maintenance_g_per_h p = fmul (beta inp) (tbw_dL p) \<and>
     total_grams_for_duration p =
       fadd (loading_grams p) (fmul (maintenance_g_per_h p) (duration_hours inp)) \<and>
     fdiv (total_grams_for_duration p) (lit 12) = Inr (std_drinks_12g p) \<and>
     fdiv (total_grams_for_duration p) (lit 14) = Inr (std_drinks_14g p)"
proof (cases "watson_tbw_liters (sex inp) (weight_kg inp) (height_cm inp) (age_years inp)")
  case (Inl e)
  then show ?thesis using assms by (simp add: make_plan_def)
next
  case (Inr l)
  define total where "total = fadd (fmul (target_bac inp) (fmul l (lit 10)))
                (fmul (fmul (beta inp) (fmul l (lit 10))) (duration_hours inp))"
  obtain d12 where d12: "fdiv total (lit 12) = Inr d12" using fdiv_12 by blast
  obtain d14 where d14: "fdiv total (lit 14) = Inr d14" using fdiv_14 by blast
  have "make_plan inp = Inr \<lparr>tbw_L = l, tbw_dL = fmul l (lit 10),
            loading_grams = fmul (target_bac inp) (fmul l (lit 10)),
            maintenance_g_per_h = fmul (beta inp) (fmul l (lit 10)),
            total_grams_for_duration = total,
            std_drinks_12g = d12, std_drinks_14g = d14\<rparr>"
    unfolding make_plan_def Let_def Inr total_def [symmetric] sum.case d12 d14 ..
  with assms have p: "p = \<lparr>tbw_L = l, tbw_dL = fmul l (lit 10),
            loading_grams = fmul (target_bac inp) (fmul l (lit 10)),
            maintenance_g_per_h = fmul (beta inp) (fmul l (lit 10)),
            total_grams_for_duration = total,
            std_drinks_12g = d12, std_drinks_14g = d14\<rparr>" by simp
  show ?thesis unfolding p Plan.select_convs using Inr d12 d14 total_def by blast
qed

lemma make_plan_v_fields:
  assumes "make_plan_v inp = Inr pv"
  shows "\<exists>l g m. watson_tbw_liters (sex inp) (weight_kg inp) (height_cm inp) (age_years inp) = Inr l \<and>
     tbw_L_v pv = l \<and> tbw_dL_v pv = fmul l (lit 10) \<and>
     g = fmul (target_bac inp) (tbw_dL_v pv) \<and>
     m = fmul (beta inp) (tbw_dL_v pv) \<and>
     fdiv g ETHANOL_DENSITY = Inr (loading_ml pv) \<and>
     fdiv m ETHANOL_DENSITY = Inr (maintenance_ml_per_h pv) \<and>
     fdiv (fadd g (fmul m (duration_hours inp))) ETHANOL_DENSITY = Inr (total_ml_for_duration pv) \<and>
     fdiv (fadd g (fmul m (duration_hours inp))) (lit 12) = Inr (std_drinks_12g_v pv) \<and>
     fdiv (fadd g (fmul m (duration_hours inp))) (lit 14) = Inr (std_drinks_14g_v pv)"
proof (cases "watson_tbw_liters (sex inp) (weight_kg inp) (height_cm inp) (age_years inp)")
  case (Inl e)
  then show ?thesis using assms by (simp add: make_plan_v_def)
next
  case (Inr l)
  define g where "g = fmul (target_bac inp) (fmul l (lit 10))"
  define m where "m = fmul (beta inp) (fmul l (lit 10))"
  define total where "total = fadd g (fmul m (duration_hours inp))"
  obtain lml where lml: "fdiv g ETHANOL_DENSITY = Inr lml" using fdiv_density by blast
  obtain mml where mml: "fdiv m ETHANOL_DENSITY = Inr mml" using fdiv_density by blast
  obtain tml where tml: "fdiv total ETHANOL_DENSITY = Inr tml" using fdiv_density by blast
  obtain d12 where d12: "fdiv total (lit 12) = Inr d12" using fdiv_12 by blast
  obtain d14 where d14: "fdiv total (lit 14) = Inr d14" using fdiv_14 by blast
  have "make_plan_v inp = Inr \<lparr>tbw_L_v = l, tbw_dL_v = fmul l (lit 10), loading_ml = lml,
            maintenance_ml_per_h = mml, total_ml_for_duration = tml,
            std_drinks_12g_v = d12, std_drinks_14g_v = d14\<rparr>"
    unfolding make_plan_v_def Let_def Inr g_def [symmetric] m_def [symmetric] total_def [symmetric]
      sum.case lml mml tml d12 d14 ..
  with assms have p: "pv = \<lparr>tbw_L_v = l, tbw_dL_v = fmul l (lit 10), loading_ml = lml,
            maintenance_ml_per_h = mml, total_ml_for_duration = tml,
            std_drinks_12g_v = d12, std_drinks_14g_v = d14\<rparr>" by simp
  show ?thesis unfolding p Plan_v.select_convs
    using Inr lml mml tml d12 d14 g_def m_def total_def by blast
qed

section \<open>What can fail\<close>

lemma make_plan_error_iff:
  "make_plan inp = Inl e \<longleftrightarrow>
   watson_tbw_liters (sex inp) (weight_kg inp) (height_cm inp) (age_years inp) = Inl e"
proof (cases "watson_tbw_liters (sex inp) (weight_kg inp) (height_cm inp) (age_years inp)")
  case (Inl a)
  then show ?thesis by (simp add: make_plan_def)
next
  case (Inr l)
  obtain d12 where d12: "fdiv (fadd (fmul (target_bac inp) (fmul l (lit 10)))
      (fmul (fmul (beta inp) (fmul l (lit 10))) (duration_hours inp))) (lit 12) = Inr d12"
    using fdiv_12 by blast
  obtain d14 where d14: "fdiv (fadd (fmul (target_bac inp) (fmul l (lit 10)))
      (fmul (fmul (beta inp) (fmul l (lit 10))) (duration_hours inp))) (lit 14) = Inr d14"
    using fdiv_14 by blast
  have "\<exists>p. make_plan inp = Inr p"
    unfolding make_plan_def Let_def Inr sum.case d12 d14 by blast
  then show ?thesis using Inr by auto
qed

lemma make_plan_v_error_iff:
  "make_plan_v inp = Inl e \<longleftrightarrow>
   watson_tbw_liters (sex inp) (weight_kg inp) (height_cm inp) (age_years inp) = Inl e"
proof (cases "watson_tbw_liters (sex inp) (weight_kg inp) (height_cm inp) (age_years inp)")
  case (Inl a)
  then show ?thesis by (simp add: make_plan_v_def)
next
  case (Inr l)
  define g where "g = fmul (target_bac inp) (fmul l (lit 10))"
  define m where "m = fmul (beta inp) (fmul l (lit 10))"
  define total where "total = fadd g (fmul m (duration_hours inp))"
  obtain lml where lml: "fdiv g ETHANOL_DENSITY = Inr lml" using fdiv_density by blast
  obtain mml where mml: "fdiv m ETHANOL_DENSITY = Inr mml" using fdiv_density by blast
  obtain tml where tml: "fdiv total ETHANOL_DENSITY = Inr tml" using fdiv_density by blast
  obtain d12 where d12: "fdiv total (lit 12) = Inr d12" using fdiv_12 by blast
  obtain d14 where d14: "fdiv total (lit 14) = Inr d14" using fdiv_14 by blast
  have "\<exists>p. make_plan_v inp = Inr p"
    unfolding make_plan_v_def Let_def Inr g_def [symmetric] m_def [symmetric] total_def [symmetric]
      sum.case lml mml tml d12 d14 by blast
  then show ?thesis using Inr by auto
qed







section \<open>The total of the plan\<close>




section \<open>The two plans, and the scenario of the specification\<close>

lemma make_plan_v_exists:
  assumes "make_plan inp = Inr p"
  shows "\<exists>pv. make_plan_v inp = Inr pv"
proof (cases "make_plan_v inp")
  case (Inl e)
  then have "make_plan inp = Inl e" by (simp only: make_plan_v_error_iff make_plan_error_iff)
  then show ?thesis using assms by simp
next
  case (Inr pv)
  then show ?thesis by blast
qed

lemma beverage_volumes:
  "total_beverage_volumes pv =
     [(ascii ''Beer (5%)'', fdiv (total_ml_for_duration pv) (lit (5 / 100))),
      (ascii ''Wine (12%)'', fdiv (total_ml_for_duration pv) (lit (12 / 100))),
      (ascii ''Fortified Wine (18%)'', fdiv (total_ml_for_duration pv) (lit (18 / 100))),
      (ascii ''Spirits (40%)'', fdiv (total_ml_for_duration pv) (lit (40 / 100)))]"
  "per_hour_beverage_volumes pv =
     [(ascii ''Beer (5%)'', fdiv (maintenance_ml_per_h pv) (lit (5 / 100))),
      (ascii ''Wine (12%)'', fdiv (maintenance_ml_per_h pv) (lit (12 / 100))),
      (ascii ''Fortified Wine (18%)'', fdiv (maintenance_ml_per_h pv) (lit (18 / 100))),
      (ascii ''Spirits (40%)'', fdiv (maintenance_ml_per_h pv) (lit (40 / 100)))]"
  unfolding total_beverage_volumes_def per_hour_beverage_volumes_def BEVERAGES_def
    ethanol_to_beverage_volume_def list.map prod.case by (rule refl)+

text \<open>
  C6. Whenever the plan in grams exists, so does the plan in millilitres, on the same body
  water and the same standard drinks, and each of its fields in millilitres is the field in
  grams divided by the density 0.789. The beverage volumes of \<^verbatim>\<open>main\<close> are the total, and the
  hourly maintenance, in millilitres divided by the fraction of the table: 0.05 for beer,
  0.12 for wine, 0.18 for fortified wine, 0.40 for spirits.
\<close>

theorem volume_plan_agrees_with_mass_plan:
  assumes "make_plan inp = Inr p"
  shows "\<exists>pv. make_plan_v inp = Inr pv \<and>
     tbw_L_v pv = tbw_L p \<and> tbw_dL_v pv = tbw_dL p \<and>
     std_drinks_12g_v pv = std_drinks_12g p \<and> std_drinks_14g_v pv = std_drinks_14g p \<and>
     fdiv (loading_grams p) (lit (789 / 1000)) = Inr (loading_ml pv) \<and>
     fdiv (maintenance_g_per_h p) (lit (789 / 1000)) = Inr (maintenance_ml_per_h pv) \<and>
     fdiv (total_grams_for_duration p) (lit (789 / 1000)) = Inr (total_ml_for_duration pv) \<and>
     total_beverage_volumes pv =
       [(ascii ''Beer (5%)'', fdiv (total_ml_for_duration pv) (lit (5 / 100))),
        (ascii ''Wine (12%)'', fdiv (total_ml_for_duration pv) (lit (12 / 100))),
        (ascii ''Fortified Wine (18%)'', fdiv (total_ml_for_duration pv) (lit (18 / 100))),
        (ascii ''Spirits (40%)'', fdiv (total_ml_for_duration pv) (lit (40 / 100)))] \<and>
     per_hour_beverage_volumes pv =
       [(ascii ''Beer (5%)'', fdiv (maintenance_ml_per_h pv) (lit (5 / 100))),
        (ascii ''Wine (12%)'', fdiv (maintenance_ml_per_h pv) (lit (12 / 100))),
        (ascii ''Fortified Wine (18%)'', fdiv (maintenance_ml_per_h pv) (lit (18 / 100))),
        (ascii ''Spirits (40%)'', fdiv (maintenance_ml_per_h pv) (lit (40 / 100)))]"
proof -
  obtain pv where pv: "make_plan_v inp = Inr pv" using make_plan_v_exists [OF assms] by blast
  obtain l where l: "watson_tbw_liters (sex inp) (weight_kg inp) (height_cm inp) (age_years inp) = Inr l"
    and p: "tbw_L p = l" "tbw_dL p = fmul l (lit 10)"
      "loading_grams p = fmul (target_bac inp) (tbw_dL p)"
      "maintenance_g_per_h p = fmul (beta inp) (tbw_dL p)"
      "total_grams_for_duration p =
         fadd (loading_grams p) (fmul (maintenance_g_per_h p) (duration_hours inp))"
      "fdiv (total_grams_for_duration p) (lit 12) = Inr (std_drinks_12g p)"
      "fdiv (total_grams_for_duration p) (lit 14) = Inr (std_drinks_14g p)"
    using make_plan_fields [OF assms] by blast
  obtain l' g m where l': "watson_tbw_liters (sex inp) (weight_kg inp) (height_cm inp) (age_years inp) = Inr l'"
    and v: "tbw_L_v pv = l'" "tbw_dL_v pv = fmul l' (lit 10)"
      "g = fmul (target_bac inp) (tbw_dL_v pv)" "m = fmul (beta inp) (tbw_dL_v pv)"
      "fdiv g ETHANOL_DENSITY = Inr (loading_ml pv)"
      "fdiv m ETHANOL_DENSITY = Inr (maintenance_ml_per_h pv)"
      "fdiv (fadd g (fmul m (duration_hours inp))) ETHANOL_DENSITY = Inr (total_ml_for_duration pv)"
      "fdiv (fadd g (fmul m (duration_hours inp))) (lit 12) = Inr (std_drinks_12g_v pv)"
      "fdiv (fadd g (fmul m (duration_hours inp))) (lit 14) = Inr (std_drinks_14g_v pv)"
    using make_plan_v_fields [OF pv] by blast
  have ll: "l' = l" using l l' by simp
  have dl: "tbw_dL_v pv = tbw_dL p" unfolding v(2) p(2) ll ..
  have g: "g = loading_grams p" unfolding v(3) p(3) dl ..
  have m: "m = maintenance_g_per_h p" unfolding v(4) p(4) dl ..
  have t: "fadd g (fmul m (duration_hours inp)) = total_grams_for_duration p" unfolding g m p(5) ..
  have d12: "std_drinks_12g_v pv = std_drinks_12g p" using v(8) p(6) unfolding t by simp
  have d14: "std_drinks_14g_v pv = std_drinks_14g p" using v(9) p(7) unfolding t by simp
  have 1: "tbw_L_v pv = tbw_L p" unfolding v(1) p(1) ll ..
  note q = v(5,6) [unfolded g m ETHANOL_DENSITY_def] v(7) [unfolded t ETHANOL_DENSITY_def]
  show ?thesis
    using pv 1 dl d12 d14 q beverage_volumes [of pv] by (intro exI [of _ pv] conjI)
qed

theorem volume_plan_agrees_witness:
  "make_plan scenario =
     Inr \<lparr>tbw_L = lit (458202 / 10000), tbw_dL = lit (458202 / 1000),
          loading_grams = lit (3665616 / 100000), maintenance_g_per_h = lit (687303 / 100000),
          total_grams_for_duration = lit (5727525 / 100000),
          std_drinks_12g = lit (47729375 / 10000000),
          std_drinks_14g = lit (4091089285714285 / 1000000000000000)\<rparr> \<and>
   (\<exists>pv. make_plan_v scenario = Inr pv \<and>
     tbw_L_v pv = lit (458202 / 10000) \<and> tbw_dL_v pv = lit (458202 / 1000) \<and>
     std_drinks_12g_v pv = lit (47729375 / 10000000) \<and> std_drinks_14g_v pv = lit (4091089285714285 / 1000000000000000) \<and>
     fdiv (lit (3665616 / 100000)) (lit (789 / 1000)) = Inr (loading_ml pv) \<and>
     fdiv (lit (687303 / 100000)) (lit (789 / 1000)) = Inr (maintenance_ml_per_h pv) \<and>
     fdiv (lit (5727525 / 100000)) (lit (789 / 1000)) = Inr (total_ml_for_duration pv) \<and>
     total_beverage_volumes pv =
       [(ascii ''Beer (5%)'', fdiv (total_ml_for_duration pv) (lit (5 / 100))),
        (ascii ''Wine (12%)'', fdiv (total_ml_for_duration pv) (lit (12 / 100))),
        (ascii ''Fortified Wine (18%)'', fdiv (total_ml_for_duration pv) (lit (18 / 100))),
        (ascii ''Spirits (40%)'', fdiv (total_ml_for_duration pv) (lit (40 / 100)))] \<and>
     per_hour_beverage_volumes pv =
       [(ascii ''Beer (5%)'', fdiv (maintenance_ml_per_h pv) (lit (5 / 100))),
        (ascii ''Wine (12%)'', fdiv (maintenance_ml_per_h pv) (lit (12 / 100))),
        (ascii ''Fortified Wine (18%)'', fdiv (maintenance_ml_per_h pv) (lit (18 / 100))),
        (ascii ''Spirits (40%)'', fdiv (maintenance_ml_per_h pv) (lit (40 / 100)))])"
  using scenario_plan volume_plan_agrees_with_mass_plan [OF scenario_plan, unfolded Plan.select_convs]
  by (rule conjI)

text \<open>
  C8 (as the code has it). For the scenario of the specification the plan is: body water
  45.8202 L and 458.202 dL, loading dose 36.65616 g, maintenance 6.87303 g per hour, total
  57.27525 g, 4.7729375 drinks of 12 g and 4.091089285714285 drinks of 14 g. These are
  36.656, 6.873, 57.275, 4.77 and 4.09 when rounded to the digits the specification prints.
\<close>

theorem scenario_values:
  "make_plan scenario =
     Inr \<lparr>tbw_L = lit (458202 / 10000), tbw_dL = lit (458202 / 1000),
          loading_grams = lit (3665616 / 100000), maintenance_g_per_h = lit (687303 / 100000),
          total_grams_for_duration = lit (5727525 / 100000),
          std_drinks_12g = lit (47729375 / 10000000),
          std_drinks_14g = lit (4091089285714285 / 1000000000000000)\<rparr> \<and>
   fmul (lit (8 / 100)) (lit (458202 / 1000)) = lit (3665616 / 100000) \<and>
   fmul (lit (15 / 1000)) (lit (458202 / 1000)) = lit (687303 / 100000) \<and>
   fadd (lit (3665616 / 100000)) (fmul (lit (687303 / 100000)) (lit 3)) = lit (5727525 / 100000) \<and>
   flt (lit (366555 / 10000)) (lit (3665616 / 100000)) \<and> flt (lit (3665616 / 100000)) (lit (366565 / 10000)) \<and>
   flt (lit (68725 / 10000)) (lit (687303 / 100000)) \<and> flt (lit (687303 / 100000)) (lit (68735 / 10000)) \<and>
   flt (lit (572745 / 10000)) (lit (5727525 / 100000)) \<and> flt (lit (5727525 / 100000)) (lit (572755 / 10000)) \<and>
   flt (lit (4765 / 1000)) (lit (47729375 / 10000000)) \<and> flt (lit (47729375 / 10000000)) (lit (4775 / 1000)) \<and>
   flt (lit (4085 / 1000)) (lit (4091089285714285 / 1000000000000000)) \<and>
   flt (lit (4091089285714285 / 1000000000000000)) (lit (4095 / 1000))"
proof -
  have "fmul (lit (8 / 100)) (lit (458202 / 1000)) = lit (3665616 / 100000)"
    "fmul (lit (15 / 1000)) (lit (458202 / 1000)) = lit (687303 / 100000)"
    "fadd (lit (3665616 / 100000)) (fmul (lit (687303 / 100000)) (lit 3)) = lit (5727525 / 100000)"
    by (simp_all only: scenario_evs)
  moreover have "flt (lit (366555 / 10000)) (lit (3665616 / 100000))" "flt (lit (3665616 / 100000)) (lit (366565 / 10000))"
    "flt (lit (68725 / 10000)) (lit (687303 / 100000))" "flt (lit (687303 / 100000)) (lit (68735 / 10000))"
    "flt (lit (572745 / 10000)) (lit (5727525 / 100000))" "flt (lit (5727525 / 100000)) (lit (572755 / 10000))"
    "flt (lit (4765 / 1000)) (lit (47729375 / 10000000))" "flt (lit (47729375 / 10000000)) (lit (4775 / 1000))"
    "flt (lit (4085 / 1000)) (lit (4091089285714285 / 1000000000000000))"
    "flt (lit (4091089285714285 / 1000000000000000)) (lit (4095 / 1000))"
    by (simp_all only: scenario_evs flt.simps)
  ultimately show ?thesis using scenario_plan by (intro conjI)
qed

text \<open>
  C8 as claimed fails: the loading dose of the scenario is 36.65616, not 36.656 (and the
  maintenance rate 6.87303, not 6.873; the total 57.27525, not 57.275).
\<close>

theorem scenario_loading_counterexample:
  "map_sum id loading_grams (make_plan scenario) = Inr (lit (3665616 / 100000)) \<and>
   lit (3665616 / 100000) \<noteq> lit (36656 / 1000) \<and>
   map_sum id maintenance_g_per_h (make_plan scenario) = Inr (lit (687303 / 100000)) \<and>
   lit (687303 / 100000) \<noteq> lit (6873 / 1000) \<and>
   map_sum id total_grams_for_duration (make_plan scenario) = Inr (lit (5727525 / 100000)) \<and>
   lit (5727525 / 100000) \<noteq> lit (57275 / 1000)"
proof -
  have "lit (3665616 / 100000) \<noteq> lit (36656 / 1000)" "lit (687303 / 100000) \<noteq> lit (6873 / 1000)"
    "lit (5727525 / 100000) \<noteq> lit (57275 / 1000)"
    apply (simp_all only: scenario_evs)
    apply simp_all
    done
  then show ?thesis unfolding scenario_plan by simp
qed

section \<open>The sign of the body water\<close>

lemma round64_int_1: "round64 1 = Fin 1"
  using round64_eval [of "1" "0" "- 52" "4503599627370496"] by (simp add: power_int_minus)

lemma round64_int_10: "round64 10 = Fin 10"
  using round64_eval [of "10" "3" "- 49" "5629499534213120"] by (simp add: power_int_minus)

lemma round64_int_m8: "round64 (- 8) = Fin (- 8)"
  using round64_eval [of "- 8" "3" "- 49" "- 4503599627370496"] by (simp add: power_int_minus)

lemma round64_int_2: "round64 2 = Fin 2"
  using round64_eval [of "2" "1" "- 51" "4503599627370496"] by (simp add: power_int_minus)

lemma round64_int_12: "round64 12 = Fin 12"
  using round64_eval [of "12" "3" "- 49" "6755399441055744"] by (simp add: power_int_minus)

lemma round64_int_24: "round64 24 = Fin 24"
  using round64_eval [of "24" "4" "- 48" "6755399441055744"] by (simp add: power_int_minus)

lemma round64_int_4: "round64 4 = Fin 4"
  using round64_eval [of "4" "2" "- 50" "4503599627370496"] by (simp add: power_int_minus)

lemma round64_int_26: "round64 26 = Fin 26"
  using round64_eval [of "26" "4" "- 48" "7318349394477056"] by (simp add: power_int_minus)

lemma round64_int_68: "round64 68 = Fin 68"
  using round64_eval [of "68" "6" "- 46" "4785074604081152"] by (simp add: power_int_minus)

lemma round64_int_14: "round64 14 = Fin 14"
  using round64_eval [of "14" "3" "- 49" "7881299347898368"] by (simp add: power_int_minus)

lemma round64_int_94: "round64 94 = Fin 94"
  using round64_eval [of "94" "6" "- 46" "6614661952700416"] by (simp add: power_int_minus)

lemma round64_int_9: "round64 9 = Fin 9"
  using round64_eval [of "9" "3" "- 49" "5066549580791808"] by (simp add: power_int_minus)

lemma round64_int_22: "round64 22 = Fin 22"
  using round64_eval [of "22" "4" "- 48" "6192449487634432"] by (simp add: power_int_minus)

lemma round64_int_7: "round64 7 = Fin 7"
  using round64_eval [of "7" "2" "- 50" "7881299347898368"] by (simp add: power_int_minus)

lemma round64_int_50: "round64 50 = Fin 50"
  using round64_eval [of "50" "5" "- 47" "7036874417766400"] by (simp add: power_int_minus)

lemma round64_int_16: "round64 16 = Fin 16"
  using round64_eval [of "16" "4" "- 48" "4503599627370496"] by (simp add: power_int_minus)

lemma round64_int_72: "round64 72 = Fin 72"
  using round64_eval [of "72" "6" "- 46" "5066549580791808"] by (simp add: power_int_minus)

lemma round64_int_15: "round64 15 = Fin 15"
  using round64_eval [of "15" "3" "- 49" "8444249301319680"] by (simp add: power_int_minus)

lemma round64_int_100: "round64 100 = Fin 100"
  using round64_eval [of "100" "6" "- 46" "7036874417766400"] by (simp add: power_int_minus)

lemma neg_height: "fmul (Fin (240717400082953 / 2251799813685248)) (Fin 1) = Fin (240717400082953 / 2251799813685248)"
  using round64_eval [of "(240717400082953 / 2251799813685248) * 1" "- 4" "- 56" "7702956802654496"] by (simp add: power_int_minus)

lemma neg_add1: "fadd (Fin (- (4722024209297965 / 2251799813685248))) (Fin (240717400082953 / 2251799813685248)) = Fin (- (1120326702303753 / 562949953421312))"
  using round64_eval [of "(- (4722024209297965 / 2251799813685248)) + (240717400082953 / 2251799813685248)" "0" "- 52" "- 8962613618430024"] by (simp add: power_int_minus)

lemma neg_weight: "fmul (Fin (8884701344876515 / 36028797018963968)) (Fin 1) = Fin (8884701344876515 / 36028797018963968)"
  using round64_eval [of "(8884701344876515 / 36028797018963968) * 1" "- 3" "- 55" "8884701344876515"] by (simp add: power_int_minus)

lemma neg_tbw: "fadd (Fin (- (1120326702303753 / 562949953421312))) (Fin (8884701344876515 / 36028797018963968)) = Fin (- (1963006487580115 / 1125899906842624))"
  using round64_eval [of "(- (1120326702303753 / 562949953421312)) + (8884701344876515 / 36028797018963968)" "0" "- 52" "- 7852025950320460"] by (simp add: power_int_minus)

lemma fmul_Fin_between:
  assumes "lo \<le> a * b" and "a * b \<le> hi" and "round64 lo = Fin lo'" and "round64 hi = Fin hi'"
  shows "\<exists>r. fmul (Fin a) (Fin b) = Fin r \<and> lo' \<le> r \<and> r \<le> hi'"
  unfolding fmul.simps using assms by (rule round64_between)

lemma fadd_Fin_between:
  assumes "lo \<le> a + b" and "a + b \<le> hi" and "round64 lo = Fin lo'" and "round64 hi = Fin hi'"
  shows "\<exists>r. fadd (Fin a) (Fin b) = Fin r \<and> lo' \<le> r \<and> r \<le> hi'"
  unfolding fadd.simps using assms by (rule round64_between)

lemma fsub_Fin: "fsub (Fin a) (Fin b) = round64 (a - b)"
  by (simp add: fsub_def)

lemma fsub_Fin_between:
  assumes "lo \<le> a - b" and "a - b \<le> hi" and "round64 lo = Fin lo'" and "round64 hi = Fin hi'"
  shows "\<exists>r. fsub (Fin a) (Fin b) = Fin r \<and> lo' \<le> r \<and> r \<le> hi'"
  unfolding fsub_Fin using assms by (rule round64_between)

lemma int_to_float_between:
  assumes "lo \<le> n" and "n \<le> hi" and "round64 (of_int lo) = Fin lo'" and "round64 (of_int hi) = Fin hi'"
  shows "\<exists>r. int_to_float n = Inr (Fin r) \<and> lo' \<le> r \<and> r \<le> hi'"
proof -
  have "(of_int lo :: rat) \<le> of_int n" "(of_int n :: rat) \<le> of_int hi" using assms(1,2) by simp_all
  then obtain r where "round64 (of_int n) = Fin r" "lo' \<le> r" "r \<le> hi'"
    using round64_between [OF _ _ assms(3,4)] by blast
  then show ?thesis by (simp add: int_to_float_def)
qed

lemma watson_male_in_bounds:
  assumes "30 \<le> w" and "w \<le> 200" and "120 \<le> h" and "h \<le> 220" and "15 \<le> age" and "age \<le> 100"
  shows "\<exists>r. watson_tbw_liters (ascii ''male'') (Fin w) (Fin h) age = Inr (Fin r) \<and> 14 \<le> r"
proof -
  obtain a where a: "int_to_float age = Inr (Fin a)" "15 \<le> a" "a \<le> 100"
    using int_to_float_between [OF assms(5,6), of 15 100] round64_int_15 round64_int_100 by auto
  have "1 \<le> (3428500324324611 / 36028797018963968) * a" "(3428500324324611 / 36028797018963968) * a \<le> 10" using a(2,3) by linarith+
  then obtain t1 where t1: "fmul (Fin (3428500324324611 / 36028797018963968)) (Fin a) = Fin t1" "1 \<le> t1" "t1 \<le> 10"
    using fmul_Fin_between [OF _ _ round64_int_1 round64_int_10] by blast
  have "- 8 \<le> (2755077072043901 / 1125899906842624) - t1" "(2755077072043901 / 1125899906842624) - t1 \<le> 2" using t1(2,3) by linarith+
  then obtain t2 where t2: "fsub (Fin (2755077072043901 / 1125899906842624)) (Fin t1) = Fin t2" "- 8 \<le> t2" "t2 \<le> 2"
    using fsub_Fin_between [OF _ _ round64_int_m8 round64_int_2] by blast
  have "12 \<le> (1934746399918365 / 18014398509481984) * h" "(1934746399918365 / 18014398509481984) * h \<le> 24" using assms(3,4) by linarith+
  then obtain t3 where t3: "fmul (Fin (1934746399918365 / 18014398509481984)) (Fin h) = Fin t3" "12 \<le> t3" "t3 \<le> 24"
    using fmul_Fin_between [OF _ _ round64_int_12 round64_int_24] by blast
  have "4 \<le> t2 + t3" "t2 + t3 \<le> 26" using t2(2,3) t3(2,3) by linarith+
  then obtain t4 where t4: "fadd (Fin t2) (Fin t3) = Fin t4" "4 \<le> t4" "t4 \<le> 26"
    using fadd_Fin_between [OF _ _ round64_int_4 round64_int_26] by blast
  have "10 \<le> (6056440778887843 / 18014398509481984) * w" "(6056440778887843 / 18014398509481984) * w \<le> 68" using assms(1,2) by linarith+
  then obtain t5 where t5: "fmul (Fin (6056440778887843 / 18014398509481984)) (Fin w) = Fin t5" "10 \<le> t5" "t5 \<le> 68"
    using fmul_Fin_between [OF _ _ round64_int_10 round64_int_68] by blast
  have "14 \<le> t4 + t5" "t4 + t5 \<le> 94" using t4(2,3) t5(2,3) by linarith+
  then obtain r where r: "fadd (Fin t4) (Fin t5) = Fin r" "14 \<le> r" "r \<le> 94"
    using fadd_Fin_between [OF _ _ round64_int_14 round64_int_94] by blast
  have "watson_tbw_liters (ascii ''male'') (Fin w) (Fin h) age = Inr (Fin r)"
    by (simp only: watson_male a(1) sum.case lit_2_447 lit_0_09516 lit_0_1074 lit_0_3362
        t1(1) t2(1) t3(1) t4(1) t5(1) r(1))
  then show ?thesis using r(2) by blast
qed

lemma watson_other_in_bounds:
  assumes "sx \<noteq> ascii ''male''" and "30 \<le> w" and "w \<le> 200" and "120 \<le> h" and "h \<le> 220"
  shows "\<exists>r. watson_tbw_liters sx (Fin w) (Fin h) age = Inr (Fin r) \<and> 16 \<le> r"
proof -
  have "12 \<le> (240717400082953 / 2251799813685248) * h" "(240717400082953 / 2251799813685248) * h \<le> 24" using assms(4,5) by linarith+
  then obtain t3 where t3: "fmul (Fin (240717400082953 / 2251799813685248)) (Fin h) = Fin t3" "12 \<le> t3" "t3 \<le> 24"
    using fmul_Fin_between [OF _ _ round64_int_12 round64_int_24] by blast
  have "9 \<le> - (4722024209297965 / 2251799813685248) + t3" "- (4722024209297965 / 2251799813685248) + t3 \<le> 22" using t3(2,3) by linarith+
  then obtain t4 where t4: "fadd (Fin (- (4722024209297965 / 2251799813685248))) (Fin t3) = Fin t4" "9 \<le> t4" "t4 \<le> 22"
    using fadd_Fin_between [OF _ _ round64_int_9 round64_int_22] by blast
  have "7 \<le> (8884701344876515 / 36028797018963968) * w" "(8884701344876515 / 36028797018963968) * w \<le> 50" using assms(2,3) by linarith+
  then obtain t5 where t5: "fmul (Fin (8884701344876515 / 36028797018963968)) (Fin w) = Fin t5" "7 \<le> t5" "t5 \<le> 50"
    using fmul_Fin_between [OF _ _ round64_int_7 round64_int_50] by blast
  have "16 \<le> t4 + t5" "t4 + t5 \<le> 72" using t4(2,3) t5(2,3) by linarith+
  then obtain r where r: "fadd (Fin t4) (Fin t5) = Fin r" "16 \<le> r" "r \<le> 72"
    using fadd_Fin_between [OF _ _ round64_int_16 round64_int_72] by blast
  have "watson_tbw_liters sx (Fin w) (Fin h) age = Inr (Fin r)"
    by (simp only: watson_not_male [OF assms(1)] lit_2_097 lit_0_1069 lit_0_2466 fneg.simps
        t3(1) t4(1) t5(1) r(1))
  then show ?thesis using r(2) by blast
qed

lemma watson_negative_example:
  "watson_tbw_liters (ascii ''female'') (Fin 1) (Fin 1) 30 = Inr (lit (- (17435 / 10000)))"
proof -
  have "lit (- (17435 / 10000)) = Fin (- (1963006487580115 / 1125899906842624))"
    using round64_eval [of "- (17435 / 10000)" "0" "- 52" "- 7852025950320460"] by (simp add: power_int_minus lit_def)
  then show ?thesis
    by (simp only: watson_not_male [OF female_not_male] lit_2_097 lit_0_1069 lit_0_2466 fneg.simps
        neg_height neg_add1 neg_weight neg_tbw)
qed

text \<open>
  C7. For every value of \<^verbatim>\<open>sex\<close>, every weight from 30 to 200, height from 120 to 220 and
  integer age from 15 to 100, \<^verbatim>\<open>watson_tbw_liters\<close> returns a finite float above zero. Outside
  these bounds the result can be negative: for \<^verbatim>\<open>"female"\<close>, 1 kg and 1 cm it is -1.7435.
\<close>

theorem watson_positive_in_bounds:
  assumes "30 \<le> w" and "w \<le> 200" and "120 \<le> h" and "h \<le> 220" and "15 \<le> age" and "age \<le> 100"
  shows "(\<exists>r. watson_tbw_liters sx (Fin w) (Fin h) age = Inr (Fin r) \<and> 0 < r) \<and>
         watson_tbw_liters (ascii ''female'') (Fin 1) (Fin 1) 30 = Inr (lit (- (17435 / 10000))) \<and>
         flt (lit (- (17435 / 10000))) (Fin 0)"
proof -
  have 1: "\<exists>r. watson_tbw_liters sx (Fin w) (Fin h) age = Inr (Fin r) \<and> 0 < r"
  proof (cases "sx = ascii ''male''")
    case True
    obtain r where "watson_tbw_liters (ascii ''male'') (Fin w) (Fin h) age = Inr (Fin r)" "14 \<le> r"
      using watson_male_in_bounds [OF assms] by blast
    then show ?thesis unfolding True by (intro exI [of _ r]) simp
  next
    case False
    obtain r where "watson_tbw_liters sx (Fin w) (Fin h) age = Inr (Fin r)" "16 \<le> r"
      using watson_other_in_bounds [OF False assms(1-4)] by blast
    then show ?thesis by (intro exI [of _ r]) simp
  qed
  have "lit (- (17435 / 10000)) = Fin (- (1963006487580115 / 1125899906842624))"
    using round64_eval [of "- (17435 / 10000)" "0" "- 52" "- 7852025950320460"] by (simp add: power_int_minus lit_def)
  then have 3: "flt (lit (- (17435 / 10000))) (Fin 0)" by simp
  show ?thesis using 1 watson_negative_example 3 by (intro conjI)
qed

theorem watson_positive_witness:
  "(30::rat) \<le> 80 \<and> (80::rat) \<le> 200 \<and> (120::rat) \<le> 180 \<and> (180::rat) \<le> 220 \<and>
   (15::int) \<le> 30 \<and> (30::int) \<le> 100 \<and>
   (\<exists>r. watson_tbw_liters (ascii ''male'') (Fin 80) (Fin 180) 30 = Inr (Fin r) \<and> 0 < r)"
  using watson_positive_in_bounds [of 80 180 30 "ascii ''male''"] by simp

section \<open>Monotonicity of the body water\<close>



lemma round64_70: "round64 70 = Fin 70"
  using round64_eval [of "70" "6" "- 46" "4925812092436480"] by (simp add: power_int_minus)






















end
